theory Spec2Isabelle
  imports Complex_Main "HOL-Library.Word" "HOL-Library.Sublist" "HOL-Library.Multiset"
begin

section \<open>JavaScript values\<close>

text \<open>
  The handlers of \<^verbatim>\<open>server/routes.ts\<close> read untyped JSON request bodies, test them
  for truthiness and \<^verbatim>\<open>typeof\<close>, and hand them on. The values are modelled as
  JavaScript has them.

  A JavaScript string is a sequence of UTF-16 code units and \<^verbatim>\<open>.length\<close> counts
  code units, so a string is a list of 16-bit words. \<open>str\<close> embeds a literal of the
  source (all of them are ASCII).
\<close>

type_synonym jsstring = "16 word list"

definition str :: "string \<Rightarrow> jsstring" where
  "str s = map (\<lambda>c. word_of_nat (of_char c)) s"

text \<open>
  A JavaScript number is an IEEE double. The handlers only ask whether a number is
  falsy (\<^verbatim>\<open>0\<close>, \<^verbatim>\<open>-0\<close>, \<^verbatim>\<open>NaN\<close>), the validators whether it is an integer in
  a range; no arithmetic is done on it. A finite double is the rational it denotes
  (\<^verbatim>\<open>0\<close> and \<^verbatim>\<open>-0\<close> are both \<open>Fin 0\<close>).
\<close>

datatype jsnumber = Fin rat | PosInf | NegInf | NaN

datatype json =
    JNull
  | JBool bool
  | JNum jsnumber
  | JStr jsstring
  | JArr "json list"
  | JObj "(jsstring \<times> json) list"

text \<open>
  A property read \<^verbatim>\<open>obj.key\<close> gives \<^verbatim>\<open>undefined\<close> when the key is absent:
  \<open>None\<close> is \<^verbatim>\<open>undefined\<close>, \<open>Some v\<close> a JSON value. An object is an association
  list with one entry for each of its keys, read by \<open>map_of\<close>.
\<close>

type_synonym jsvalue = "json option"

type_synonym body = "(jsstring \<times> json) list"

definition getProp :: "body \<Rightarrow> string \<Rightarrow> jsvalue" where
  "getProp b k = map_of b (str k)"

text \<open>\<^verbatim>\<open>!v\<close> is \<open>\<not> truthy v\<close>.\<close>

fun truthy :: "jsvalue \<Rightarrow> bool" where
  "truthy None = False"
| "truthy (Some JNull) = False"
| "truthy (Some (JBool b)) = b"
| "truthy (Some (JNum (Fin r))) = (r \<noteq> 0)"
| "truthy (Some (JNum NaN)) = False"
| "truthy (Some (JNum _)) = True"
| "truthy (Some (JStr s)) = (s \<noteq> [])"
| "truthy (Some (JArr _)) = True"
| "truthy (Some (JObj _)) = True"

datatype jstype = TUndefined | TObject | TBoolean | TNumber | TString

fun typeof :: "jsvalue \<Rightarrow> jstype" where
  "typeof None = TUndefined"
| "typeof (Some JNull) = TObject"
| "typeof (Some (JBool _)) = TBoolean"
| "typeof (Some (JNum _)) = TNumber"
| "typeof (Some (JStr _)) = TString"
| "typeof (Some (JArr _)) = TObject"
| "typeof (Some (JObj _)) = TObject"

text \<open>\<^verbatim>\<open>Number.isInteger\<close>, as zod's \<^verbatim>\<open>.int()\<close> uses it.\<close>

fun isInteger :: "jsnumber \<Rightarrow> bool" where
  "isInteger (Fin r) = (r = of_int \<lfloor>r\<rfloor>)"
| "isInteger _ = False"

text \<open>
  The values of an \<^verbatim>\<open>integer\<close> column of the database are the integers of 32 bits:
  the numbers that are neither below nor above their range and are integers.
  \<open>integerOf\<close> reads such a number.
\<close>

fun belowInt32 :: "jsnumber \<Rightarrow> bool" where
  "belowInt32 (Fin r) = (r < - 2147483648)"
| "belowInt32 NegInf = True"
| "belowInt32 _ = False"

fun aboveInt32 :: "jsnumber \<Rightarrow> bool" where
  "aboveInt32 (Fin r) = (2147483647 < r)"
| "aboveInt32 PosInf = True"
| "aboveInt32 _ = False"

definition isInt32 :: "jsnumber \<Rightarrow> bool" where
  "isInt32 x = (isInteger x \<and> \<not> belowInt32 x \<and> \<not> aboveInt32 x)"

fun integerOf :: "jsnumber \<Rightarrow> int" where
  "integerOf (Fin r) = \<lfloor>r\<rfloor>"
| "integerOf _ = 0"

lemma length_str [simp]: "length (str s) = length s"
  by (simp add: str_def)

lemma str_Nil [simp]: "str [] = []"
  by (simp add: str_def)

lemma str_eq_Nil [simp]: "(str s = []) = (s = [])" "([] = str s) = (s = [])"
  by (auto simp: str_def)

lemma code_unit_inj:
  "(word_of_nat (of_char c) :: 16 word) = word_of_nat (of_char d) \<Longrightarrow> c = d"
proof -
  assume eq: "(word_of_nat (of_char c) :: 16 word) = word_of_nat (of_char d)"
  have c: "(of_char c :: nat) < 2 ^ 16" and d: "(of_char d :: nat) < 2 ^ 16"
    by (rule order_less_trans [OF nat_of_char_less_256], simp)+
  have uc: "unat (word_of_nat (of_char c) :: 16 word) = of_char c"
    using c by (simp add: unat_of_nat)
  have ud: "unat (word_of_nat (of_char d) :: 16 word) = of_char d"
    using d by (simp add: unat_of_nat)
  from eq have "unat (word_of_nat (of_char c) :: 16 word) = unat (word_of_nat (of_char d) :: 16 word)"
    by (rule arg_cong)
  then have "(of_char c :: nat) = of_char d"
    unfolding uc ud .
  then show "c = d" by (rule of_char_eqI)
qed

lemma str_eq_iff [simp]: "(str a = str b) = (a = b)"
proof
  assume "str a = str b"
  then show "a = b"
  proof (induction a arbitrary: b)
    case Nil
    then show ?case by (simp add: str_def)
  next
    case (Cons c cs)
    then obtain d ds where b: "b = d # ds" by (cases b) (auto simp: str_def)
    with Cons.prems have "c = d" and "str cs = str ds"
      by (auto simp: str_def dest: code_unit_inj)
    with Cons.IH b show ?case by simp
  qed
qed simp


section \<open>The data model (\<^verbatim>\<open>shared/schema.ts\<close>)\<close>

text \<open>
  A \<^verbatim>\<open>timestamp\<close> is a JavaScript \<^verbatim>\<open>Date\<close>: its time value, the milliseconds
  since the epoch. A nullable column is an \<open>option\<close> (\<open>None\<close> is \<^verbatim>\<open>null\<close>).
  The rows follow the tables \<^verbatim>\<open>users\<close>, \<^verbatim>\<open>grievances\<close>, \<^verbatim>\<open>verifications\<close>
  and \<^verbatim>\<open>blockchainRecords\<close> column by column; \<^verbatim>\<open>id\<close> and the column names that
  several tables share carry the table's letter.

  \<^verbatim>\<open>status\<close>, \<^verbatim>\<open>resolutionNotes\<close> and \<^verbatim>\<open>resolutionEvidence\<close> of a grievance
  are written by \<^verbatim>\<open>PATCH /api/grievances/:id/status\<close> from the untyped request body
  without a check of their type, so the row holds them as the JavaScript values they are.
\<close>

type_synonym date = int

record user =
  u_id :: jsstring
  u_username :: jsstring
  u_password :: jsstring
  u_fullName :: jsstring
  u_role :: jsstring
  u_mobileNumber :: jsstring
  u_email :: "jsstring option"
  u_villageName :: "jsstring option"
  u_createdAt :: date

record grievance =
  gid :: jsstring
  grievanceNumber :: jsstring
  userId :: jsstring
  title :: jsstring
  category :: jsstring
  description :: jsstring
  villageName :: jsstring
  status :: json
  priority :: jsstring
  evidenceFiles :: "jsstring list option"
  voiceRecordingUrl :: "jsstring option"
  voiceTranscription :: "jsstring option"
  assignedTo :: "jsstring option"
  resolutionTimeline :: "int option"
  dueDate :: "date option"
  resolvedAt :: "date option"
  resolutionNotes :: "json option"
  resolutionEvidence :: "json option"
  verificationDeadline :: "date option"
  isEscalated :: "bool option"
  escalatedAt :: "date option"
  createdAt :: date
  updatedAt :: date

datatype verificationType = verify | dispute

datatype verificationStatus = verified | disputed

record verification =
  v_id :: jsstring
  v_grievanceId :: jsstring
  v_userId :: jsstring
  v_verificationType :: verificationType
  v_status :: verificationStatus
  v_comments :: "jsstring option"
  v_evidenceFiles :: "jsstring list option"
  v_createdAt :: date

record blockchainRecord =
  b_id :: jsstring
  b_grievanceId :: jsstring
  transactionHash :: jsstring
  blockNumber :: "jsstring option"
  eventType :: jsstring
  eventData :: jsstring
  b_timestamp :: date

text \<open>The four lifecycle states, as the string values the handlers compare with and write.\<close>

abbreviation pending :: json where "pending \<equiv> JStr (str ''pending'')"
abbreviation in_progress :: json where "in_progress \<equiv> JStr (str ''in_progress'')"
abbreviation pending_verification :: json where
  "pending_verification \<equiv> JStr (str ''pending_verification'')"
abbreviation resolved :: json where "resolved \<equiv> JStr (str ''resolved'')"

subsection \<open>Creation inputs\<close>

text \<open>
  \<^verbatim>\<open>InsertUser\<close>, \<^verbatim>\<open>InsertGrievance\<close> and \<^verbatim>\<open>InsertVerification\<close>: the row without
  the columns that \<^verbatim>\<open>omit\<close> removes. An optional key that is absent and a nullable one
  that is \<^verbatim>\<open>null\<close> are both \<open>None\<close>.
\<close>

record insertUser =
  iu_username :: jsstring
  iu_password :: jsstring
  iu_fullName :: jsstring
  iu_role :: "jsstring option"
  iu_mobileNumber :: jsstring
  iu_email :: "jsstring option"
  iu_villageName :: "jsstring option"

record insertGrievance =
  ig_title :: jsstring
  ig_category :: jsstring
  ig_description :: jsstring
  ig_villageName :: jsstring
  ig_priority :: "jsstring option"
  ig_evidenceFiles :: "jsstring list option"
  ig_voiceRecordingUrl :: "jsstring option"
  ig_voiceTranscription :: "jsstring option"
  ig_resolutionTimeline :: "int option"
  ig_dueDate :: "date option"
  ig_resolutionNotes :: "jsstring option"
  ig_resolutionEvidence :: "jsstring list option"

record insertVerification =
  iv_grievanceId :: jsstring
  iv_verificationType :: verificationType
  iv_status :: verificationStatus
  iv_comments :: "jsstring option"
  iv_evidenceFiles :: "jsstring list option"


section \<open>The environment of a request\<close>

text \<open>
  What a handler reads from outside the request and the store: the clock, the generated
  identifiers and the server's time zone.
  \<^item> \<open>clock e k\<close> is the value of the \<open>k\<close>-th \<^verbatim>\<open>new Date()\<close> that the handler
    evaluates (each evaluation reads the clock again);
  \<^item> \<open>dbNow e\<close> is the database's \<^verbatim>\<open>defaultNow()\<close>;
  \<^item> \<open>uuid e k\<close> is the \<open>k\<close>-th \<^verbatim>\<open>gen_random_uuid()\<close>, \<open>grievanceNo e\<close> the generated
    grievance number;
  \<^item> \<open>tzUTC e t\<close> and \<open>tzLocal e t\<close> are the offset of local time, in milliseconds, at
    the UTC instant \<open>t\<close> and at the local time \<open>t\<close> (ECMAScript's \<^verbatim>\<open>LocalTZA(t, true)\<close>
    and \<^verbatim>\<open>LocalTZA(t, false)\<close>);
  \<^item> \<open>linkOwner\<close> and \<open>userFields\<close> stand for two steps of the persistence gateway
    that nothing under \<^verbatim>\<open>src/\<close> and no sentence of the specification fixes (see
    \<open>createGrievance\<close> and \<open>post_users\<close>);
  \<^item> \<open>stringOf e v\<close> is \<^verbatim>\<open>String(v)\<close> for a value \<open>v\<close> that is not a string
    (ECMAScript's \<^verbatim>\<open>ToString\<close>, whose text for numbers, arrays and objects is not
    modelled).
\<close>

record env =
  clock :: "nat \<Rightarrow> date"
  dbNow :: date
  uuid :: "nat \<Rightarrow> jsstring"
  grievanceNo :: jsstring
  tzUTC :: "date \<Rightarrow> int"
  tzLocal :: "date \<Rightarrow> int"
  linkOwner :: "jsstring \<Rightarrow> jsvalue \<Rightarrow> jsvalue \<Rightarrow> user list \<Rightarrow> jsstring \<times> user list"
  userFields :: "body \<Rightarrow> insertUser option"
  stringOf :: "json \<Rightarrow> jsstring"

text \<open>\<^verbatim>\<open>String(v)\<close>: a string is itself.\<close>

definition coerceString :: "env \<Rightarrow> json \<Rightarrow> jsstring" where
  "coerceString e v = (case v of JStr x \<Rightarrow> x | _ \<Rightarrow> stringOf e v)"

subsection \<open>\<^verbatim>\<open>Date.prototype.setDate\<close>\<close>

text \<open>
  \<^verbatim>\<open>d.setDate(d.getDate() + n)\<close> works on local time: with \<open>t = LocalTime(d)\<close> it
  builds \<^verbatim>\<open>MakeDate(MakeDay(Year(t), Month(t), Date(t) + n), TimeWithinDay(t))\<close>, which
  is \<open>t + n * msPerDay\<close>, and stores \<^verbatim>\<open>UTC\<close> of it. (\<^verbatim>\<open>TimeClip\<close> is the identity
  on every instant within 10^8 days of the epoch, where a clock reading lies.)
\<close>

definition msPerDay :: int where
  "msPerDay = 86400000"

definition LocalTime :: "env \<Rightarrow> date \<Rightarrow> int" where
  "LocalTime e t = t + tzUTC e t"

definition UTC :: "env \<Rightarrow> int \<Rightarrow> date" where
  "UTC e t = t - tzLocal e t"

definition addDays :: "env \<Rightarrow> date \<Rightarrow> int \<Rightarrow> date" where
  "addDays e d n = UTC e (LocalTime e d + n * msPerDay)"

section \<open>The persistence gateway (\<^verbatim>\<open>server/storage.ts\<close>)\<close>

text \<open>
  \<^verbatim>\<open>routes.ts\<close> imports \<^verbatim>\<open>storage\<close> from \<^verbatim>\<open>./storage\<close>, which is not among the
  sources. Its operations are modelled from the contract of the specification (section
  6, and the operations of section 4.2 that name what each one writes), over a store
  that holds the four tables as lists of rows in insertion order.
\<close>

record store =
  users :: "user list"
  grievances :: "grievance list"
  verifications :: "verification list"
  blockchainRecords :: "blockchainRecord list"

text \<open>
  Modelled from the spec: \<^verbatim>\<open>getAllGrievances()\<close>, "ordered sequence of Grievance";
  \<^verbatim>\<open>storage.ts\<close> is missing.
\<close>

definition getAllGrievances :: "store \<Rightarrow> grievance list" where
  "getAllGrievances s = grievances s"

text \<open>
  Modelled from the spec: \<^verbatim>\<open>getGrievance(id)\<close>, "Grievance | absent";
  \<^verbatim>\<open>storage.ts\<close> is missing.
\<close>

definition getGrievance :: "store \<Rightarrow> jsstring \<Rightarrow> grievance option" where
  "getGrievance s i = find (\<lambda>g. gid g = i) (grievances s)"

text \<open>
  Modelled from the spec: \<^verbatim>\<open>getUserByUsername(name)\<close>, "User | absent";
  \<^verbatim>\<open>storage.ts\<close> is missing.
\<close>

definition getUserByUsername :: "store \<Rightarrow> jsstring \<Rightarrow> user option" where
  "getUserByUsername s n = find (\<lambda>u. u_username u = n) (users s)"

text \<open>
  Modelled from the spec: \<^verbatim>\<open>createUser(fields)\<close> gives the User; the identifier
  and \<^verbatim>\<open>createdAt\<close> are generated, \<^verbatim>\<open>role\<close> defaults to \<^verbatim>\<open>citizen\<close> (section 3);
  \<^verbatim>\<open>storage.ts\<close> is missing.
\<close>

definition createUser :: "jsstring \<Rightarrow> date \<Rightarrow> insertUser \<Rightarrow> store \<Rightarrow> user \<times> store" where
  "createUser newId now f s =
     (let u = \<lparr> u_id = newId, u_username = iu_username f, u_password = iu_password f,
                u_fullName = iu_fullName f,
                u_role = (case iu_role f of None \<Rightarrow> str ''citizen'' | Some r \<Rightarrow> r),
                u_mobileNumber = iu_mobileNumber f, u_email = iu_email f,
                u_villageName = iu_villageName f, u_createdAt = now \<rparr>
      in (u, s\<lparr>users := users s @ [u]\<rparr>))"

text \<open>
  Modelled from the spec: \<^verbatim>\<open>createGrievance(validatedInput, ownerId, ownerFullName,
  ownerMobile)\<close>: "assigns a new grievanceNumber; status := pending; persists", with
  the defaults of the table for the columns the input leaves out, and "links to owner
  user (creating/reusing a user record keyed by provided identity)". How the owner record
  is found or created is not said, so that step is the parameter \<open>linkOwner\<close>, which
  gives the owner's id and the users table after it. \<^verbatim>\<open>storage.ts\<close> is missing.
\<close>

definition createGrievance ::
  "env \<Rightarrow> insertGrievance \<Rightarrow> jsstring \<Rightarrow> jsvalue \<Rightarrow> jsvalue \<Rightarrow> store \<Rightarrow> grievance \<times> store" where
  "createGrievance e i ownerId ownerFullName ownerMobile s =
     (let (owner, us) = linkOwner e ownerId ownerFullName ownerMobile (users s);
          g = \<lparr> gid = uuid e 0, grievanceNumber = grievanceNo e, userId = owner,
                title = ig_title i, category = ig_category i, description = ig_description i,
                villageName = ig_villageName i, status = pending,
                priority = (case ig_priority i of None \<Rightarrow> str ''medium'' | Some p \<Rightarrow> p),
                evidenceFiles = ig_evidenceFiles i,
                voiceRecordingUrl = ig_voiceRecordingUrl i,
                voiceTranscription = ig_voiceTranscription i,
                assignedTo = None, resolutionTimeline = ig_resolutionTimeline i,
                dueDate = ig_dueDate i, resolvedAt = None,
                resolutionNotes = map_option JStr (ig_resolutionNotes i),
                resolutionEvidence = map_option (\<lambda>xs. JArr (map JStr xs)) (ig_resolutionEvidence i),
                verificationDeadline = None, isEscalated = Some False, escalatedAt = None,
                createdAt = dbNow e, updatedAt = dbNow e \<rparr>
      in (g, s\<lparr>users := us, grievances := grievances s @ [g]\<rparr>))"

text \<open>
  Modelled from the spec: the write that \<^verbatim>\<open>acceptGrievance\<close> and
  \<^verbatim>\<open>updateGrievanceStatus\<close> share, "Grievance | absent". It changes every row with
  the given id (the primary key admits one) and returns the first of them, or nothing
  when there is none. \<^verbatim>\<open>storage.ts\<close> is missing.
\<close>

definition updateRows :: "jsstring \<Rightarrow> (grievance \<Rightarrow> grievance) \<Rightarrow> store \<Rightarrow> grievance option \<times> store" where
  "updateRows i f s =
     (let s' = s\<lparr>grievances := map (\<lambda>g. if gid g = i then f g else g) (grievances s)\<rparr>
      in (getGrievance s' i, s'))"

text \<open>
  Modelled from the spec: \<^verbatim>\<open>acceptGrievance(id, officerId, timelineDays)\<close>: "sets
  assignedTo := officerId, resolutionTimeline := resolutionTimelineDays, status :=
  in_progress", "Grievance | absent". \<^verbatim>\<open>resolutionTimeline\<close> is "integer days" (an
  \<^verbatim>\<open>integer\<close> column in \<^verbatim>\<open>schema.ts\<close>), and the handler passes the number of the
  request as it is: a number that the column cannot hold is not written, the operation
  throws (\<open>None\<close>). \<^verbatim>\<open>storage.ts\<close> is missing.
\<close>

definition acceptGrievance ::
  "store \<Rightarrow> jsstring \<Rightarrow> jsstring \<Rightarrow> jsnumber \<Rightarrow> (grievance option \<times> store) option" where
  "acceptGrievance s i officerId timelineDays =
     (if isInt32 timelineDays
      then Some (updateRows i (\<lambda>g. g\<lparr>assignedTo := Some officerId,
                                       resolutionTimeline := Some (integerOf timelineDays),
                                       status := in_progress\<rparr>) s)
      else None)"

text \<open>
  The object \<^verbatim>\<open>updates\<close> that \<^verbatim>\<open>PATCH /api/grievances/:id/status\<close> builds: each
  of its five keys is absent (\<open>None\<close>) or holds a value.
\<close>

record updates =
  upd_resolutionNotes :: "json option"
  upd_resolutionEvidence :: "json option"
  upd_resolvedAt :: "date option"
  upd_verificationDeadline :: "date option"
  upd_status :: "json option"

definition noUpdates :: updates where
  "noUpdates = \<lparr> upd_resolutionNotes = None, upd_resolutionEvidence = None,
                 upd_resolvedAt = None, upd_verificationDeadline = None, upd_status = None \<rparr>"

text \<open>
  Modelled from the spec: the extra fields supplied "are merged in": a key that is present
  replaces the column, an absent one leaves it. \<^verbatim>\<open>storage.ts\<close> is missing.
\<close>

definition mergeUpdates :: "updates \<Rightarrow> grievance \<Rightarrow> grievance" where
  "mergeUpdates u g =
     g\<lparr> resolutionNotes := (case upd_resolutionNotes u of None \<Rightarrow> resolutionNotes g | Some v \<Rightarrow> Some v),
        resolutionEvidence := (case upd_resolutionEvidence u of None \<Rightarrow> resolutionEvidence g | Some v \<Rightarrow> Some v),
        resolvedAt := (case upd_resolvedAt u of None \<Rightarrow> resolvedAt g | Some v \<Rightarrow> Some v),
        verificationDeadline := (case upd_verificationDeadline u of None \<Rightarrow> verificationDeadline g | Some v \<Rightarrow> Some v),
        status := (case upd_status u of None \<Rightarrow> status g | Some v \<Rightarrow> v) \<rparr>"

text \<open>
  Modelled from the spec: \<^verbatim>\<open>updateGrievanceStatus(id, status, extraFields)\<close>, the
  "generic status mutator": the status is written and the extra fields supplied "are
  merged in"; "Grievance | absent". The third argument is optional (\<^verbatim>\<open>POST
  /api/verifications\<close> leaves it out). \<^verbatim>\<open>storage.ts\<close> is missing.
\<close>

definition updateGrievanceStatus ::
  "store \<Rightarrow> jsstring \<Rightarrow> json \<Rightarrow> updates option \<Rightarrow> grievance option \<times> store" where
  "updateGrievanceStatus s i st extra =
     updateRows i (\<lambda>g. case extra of
                          None \<Rightarrow> g\<lparr>status := st\<rparr>
                        | Some u \<Rightarrow> mergeUpdates u (g\<lparr>status := st\<rparr>)) s"

text \<open>
  Modelled from the spec: \<^verbatim>\<open>createVerification(validatedInput, verifierId)\<close>:
  "persists a new Verification row tied to grievanceId and verifierId" and gives it
  back; \<^verbatim>\<open>storage.ts\<close> is missing.
\<close>

definition createVerification ::
  "jsstring \<Rightarrow> date \<Rightarrow> insertVerification \<Rightarrow> jsstring \<Rightarrow> store \<Rightarrow> verification \<times> store" where
  "createVerification newId now i verifierId s =
     (let v = \<lparr> v_id = newId, v_grievanceId = iv_grievanceId i, v_userId = verifierId,
                v_verificationType = iv_verificationType i, v_status = iv_status i,
                v_comments = iv_comments i, v_evidenceFiles = iv_evidenceFiles i,
                v_createdAt = now \<rparr>
      in (v, s\<lparr>verifications := verifications s @ [v]\<rparr>))"

text \<open>
  Modelled from the spec: \<^verbatim>\<open>getVerificationsByGrievance(id)\<close>, an "ordered
  sequence"; \<^verbatim>\<open>storage.ts\<close> is missing.
\<close>

definition getVerificationsByGrievance :: "store \<Rightarrow> jsstring \<Rightarrow> verification list" where
  "getVerificationsByGrievance s i = filter (\<lambda>v. v_grievanceId v = i) (verifications s)"

text \<open>
  Modelled from the spec: \<^verbatim>\<open>getBlockchainRecordsByGrievance(id)\<close>, an "ordered
  sequence"; \<^verbatim>\<open>storage.ts\<close> is missing.
\<close>

definition getBlockchainRecordsByGrievance :: "store \<Rightarrow> jsstring \<Rightarrow> blockchainRecord list" where
  "getBlockchainRecordsByGrievance s i = filter (\<lambda>r. b_grievanceId r = i) (blockchainRecords s)"


section \<open>The creation validators (\<^verbatim>\<open>shared/schema.ts\<close>)\<close>

text \<open>
  \<^verbatim>\<open>schema.parse(input)\<close> of zod either returns the validated object or throws a
  \<^verbatim>\<open>ZodError\<close> that carries one issue for each violated constraint: here \<open>Inr\<close> of
  the object or \<open>Inl\<close> of the issues. An issue has the path of the offending value, a
  code, and the message when the schema of the source sets one (\<open>None\<close> stands for
  zod's default text). An object schema reads the keys of its shape only and drops every
  other key of the input.
\<close>

datatype zseg = Key string | Index nat

datatype zcode = invalid_type | too_small | too_big | invalid_enum_value

datatype zissue = ZIssue (zpath: "zseg list") (zcode: zcode) (zmessage: "string option")

definition zString :: "string \<Rightarrow> jsvalue \<Rightarrow> zissue list" where
  "zString k v = (case v of Some (JStr _) \<Rightarrow> [] | _ \<Rightarrow> [ZIssue [Key k] invalid_type None])"

definition zStringMin :: "nat \<Rightarrow> string \<Rightarrow> string \<Rightarrow> jsvalue \<Rightarrow> zissue list" where
  "zStringMin n msg k v =
     (case v of
        Some (JStr x) \<Rightarrow> if length x < n then [ZIssue [Key k] too_small (Some msg)] else []
      | _ \<Rightarrow> [ZIssue [Key k] invalid_type None])"

definition zEnum :: "string list \<Rightarrow> string \<Rightarrow> jsvalue \<Rightarrow> zissue list" where
  "zEnum vals k v =
     (case v of
        Some (JStr x) \<Rightarrow> if x \<in> set (map str vals) then [] else [ZIssue [Key k] invalid_enum_value None]
      | _ \<Rightarrow> [ZIssue [Key k] invalid_type None])"

text \<open>
  A \<^verbatim>\<open>text().array()\<close> column is \<^verbatim>\<open>z.array\<close> of the schema of its element, and
  \<^verbatim>\<open>createInsertSchema\<close> builds the schema of an array's element with coercion
  (\<^verbatim>\<open>z.coerce.string()\<close>): an element that is not a string is replaced by
  \<^verbatim>\<open>String\<close> of it and raises no issue. So every array passes, and a value that is not
  an array does not.
\<close>

definition zStringArray :: "string \<Rightarrow> jsvalue \<Rightarrow> zissue list" where
  "zStringArray k v =
     (case v of
        Some (JArr xs) \<Rightarrow> []
      | _ \<Rightarrow> [ZIssue [Key k] invalid_type None])"

text \<open>
  An \<^verbatim>\<open>integer\<close> column is \<^verbatim>\<open>z.number().min(-2147483648).max(2147483647).int()\<close>:
  a number (not \<^verbatim>\<open>NaN\<close>), with one issue for each of the three checks that fails.
\<close>

definition zInteger :: "string \<Rightarrow> jsvalue \<Rightarrow> zissue list" where
  "zInteger k v =
     (case v of
        Some (JNum NaN) \<Rightarrow> [ZIssue [Key k] invalid_type None]
      | Some (JNum x) \<Rightarrow>
          (if belowInt32 x then [ZIssue [Key k] too_small None] else []) @
          (if aboveInt32 x then [ZIssue [Key k] too_big None] else []) @
          (if isInteger x then [] else [ZIssue [Key k] invalid_type None])
      | _ \<Rightarrow> [ZIssue [Key k] invalid_type None])"

text \<open>
  A \<^verbatim>\<open>timestamp\<close> column is \<^verbatim>\<open>z.date()\<close>, which accepts instances of \<^verbatim>\<open>Date\<close>
  only; no JSON value is one.
\<close>

definition zDate :: "string \<Rightarrow> jsvalue \<Rightarrow> zissue list" where
  "zDate k v = [ZIssue [Key k] invalid_type None]"

definition zOptional :: "(string \<Rightarrow> jsvalue \<Rightarrow> zissue list) \<Rightarrow> string \<Rightarrow> jsvalue \<Rightarrow> zissue list" where
  "zOptional p k v = (case v of None \<Rightarrow> [] | Some _ \<Rightarrow> p k v)"

definition zNullable :: "(string \<Rightarrow> jsvalue \<Rightarrow> zissue list) \<Rightarrow> string \<Rightarrow> jsvalue \<Rightarrow> zissue list" where
  "zNullable p k v = (case v of Some JNull \<Rightarrow> [] | _ \<Rightarrow> p k v)"

text \<open>The check of the key \<open>k\<close> of the input \<open>b\<close>.\<close>

definition field :: "(string \<Rightarrow> jsvalue \<Rightarrow> zissue list) \<Rightarrow> string \<Rightarrow> body \<Rightarrow> zissue list" where
  "field p k b = p k (getProp b k)"

text \<open>Reading a validated value.\<close>

fun asString :: "jsvalue \<Rightarrow> jsstring" where
  "asString (Some (JStr x)) = x"
| "asString _ = []"

fun asStringOpt :: "jsvalue \<Rightarrow> jsstring option" where
  "asStringOpt (Some (JStr x)) = Some x"
| "asStringOpt _ = None"

fun asStringArrayOpt :: "env \<Rightarrow> jsvalue \<Rightarrow> jsstring list option" where
  "asStringArrayOpt e (Some (JArr xs)) = Some (map (coerceString e) xs)"
| "asStringArrayOpt e _ = None"

fun asIntegerOpt :: "jsvalue \<Rightarrow> int option" where
  "asIntegerOpt (Some (JNum x)) = Some (integerOf x)"
| "asIntegerOpt _ = None"

subsection \<open>\<^verbatim>\<open>insertGrievanceSchema\<close>\<close>

text \<open>
  \<^verbatim>\<open>createInsertSchema(grievances)\<close> has one key for each column: required for a
  \<^verbatim>\<open>notNull\<close> column without a default, optional for one with a default, optional and
  nullable otherwise. \<^verbatim>\<open>omit\<close> removes eleven keys (\<^verbatim>\<open>id\<close>, \<^verbatim>\<open>grievanceNumber\<close>,
  \<^verbatim>\<open>status\<close>, \<^verbatim>\<open>isEscalated\<close>, \<^verbatim>\<open>escalatedAt\<close>, \<^verbatim>\<open>createdAt\<close>,
  \<^verbatim>\<open>updatedAt\<close>, \<^verbatim>\<open>userId\<close>, \<^verbatim>\<open>assignedTo\<close>, \<^verbatim>\<open>resolvedAt\<close>,
  \<^verbatim>\<open>verificationDeadline\<close>) and \<^verbatim>\<open>extend\<close> replaces the checks of \<^verbatim>\<open>title\<close>,
  \<^verbatim>\<open>description\<close> and \<^verbatim>\<open>category\<close>. Twelve keys remain, in the order of the
  columns.
\<close>

text \<open>The keys that \<^verbatim>\<open>omit\<close> removes.\<close>

definition omitted :: "string list" where
  "omitted =
     [''id'', ''grievanceNumber'', ''status'', ''isEscalated'', ''escalatedAt'', ''createdAt'',
      ''updatedAt'', ''userId'', ''assignedTo'', ''resolvedAt'', ''verificationDeadline'']"

definition categories :: "string list" where
  "categories =
     [''Water Supply'', ''Road & Infrastructure'', ''Electricity'',
      ''Sanitation & Waste Management'', ''Healthcare'', ''Education'',
      ''Agriculture Support'', ''Social Welfare Schemes'', ''Other'']"

definition titleIssues :: "body \<Rightarrow> zissue list" where
  "titleIssues b = field (zStringMin 10 ''Title must be at least 10 characters'') ''title'' b"

definition categoryIssues :: "body \<Rightarrow> zissue list" where
  "categoryIssues b = field (zEnum categories) ''category'' b"

definition descriptionIssues :: "body \<Rightarrow> zissue list" where
  "descriptionIssues b =
     field (zStringMin 50 ''Description must be at least 50 characters'') ''description'' b"

text \<open>The nine keys whose checks come from the columns.\<close>

definition columnIssues :: "body \<Rightarrow> zissue list" where
  "columnIssues b =
     field zString ''villageName'' b @
     field (zOptional zString) ''priority'' b @
     field (zOptional (zNullable zStringArray)) ''evidenceFiles'' b @
     field (zOptional (zNullable zString)) ''voiceRecordingUrl'' b @
     field (zOptional (zNullable zString)) ''voiceTranscription'' b @
     field (zOptional (zNullable zInteger)) ''resolutionTimeline'' b @
     field (zOptional (zNullable zDate)) ''dueDate'' b @
     field (zOptional (zNullable zString)) ''resolutionNotes'' b @
     field (zOptional (zNullable zStringArray)) ''resolutionEvidence'' b"

definition insertGrievanceIssues :: "body \<Rightarrow> zissue list" where
  "insertGrievanceIssues b =
     titleIssues b @ categoryIssues b @ descriptionIssues b @ columnIssues b"

definition insertGrievanceValue :: "env \<Rightarrow> body \<Rightarrow> insertGrievance" where
  "insertGrievanceValue e b =
     \<lparr> ig_title = asString (getProp b ''title''),
       ig_category = asString (getProp b ''category''),
       ig_description = asString (getProp b ''description''),
       ig_villageName = asString (getProp b ''villageName''),
       ig_priority = asStringOpt (getProp b ''priority''),
       ig_evidenceFiles = asStringArrayOpt e (getProp b ''evidenceFiles''),
       ig_voiceRecordingUrl = asStringOpt (getProp b ''voiceRecordingUrl''),
       ig_voiceTranscription = asStringOpt (getProp b ''voiceTranscription''),
       ig_resolutionTimeline = asIntegerOpt (getProp b ''resolutionTimeline''),
       ig_dueDate = None,
       ig_resolutionNotes = asStringOpt (getProp b ''resolutionNotes''),
       ig_resolutionEvidence = asStringArrayOpt e (getProp b ''resolutionEvidence'') \<rparr>"

definition insertGrievanceSchema :: "env \<Rightarrow> body \<Rightarrow> zissue list + insertGrievance" where
  "insertGrievanceSchema e b =
     (if insertGrievanceIssues b = [] then Inr (insertGrievanceValue e b)
      else Inl (insertGrievanceIssues b))"

subsection \<open>\<^verbatim>\<open>insertVerificationSchema\<close>\<close>

text \<open>
  \<^verbatim>\<open>createInsertSchema(verifications)\<close> without \<^verbatim>\<open>id\<close>, \<^verbatim>\<open>createdAt\<close> and
  \<^verbatim>\<open>userId\<close>, with the two enums of \<^verbatim>\<open>extend\<close>.
\<close>

definition insertVerificationIssues :: "body \<Rightarrow> zissue list" where
  "insertVerificationIssues b =
     field zString ''grievanceId'' b @
     field (zEnum [''verify'', ''dispute'']) ''verificationType'' b @
     field (zEnum [''verified'', ''disputed'']) ''status'' b @
     field (zOptional (zNullable zString)) ''comments'' b @
     field (zOptional (zNullable zStringArray)) ''evidenceFiles'' b"

definition asVerificationType :: "jsvalue \<Rightarrow> verificationType" where
  "asVerificationType v = (if v = Some (JStr (str ''verify'')) then verify else dispute)"

definition asVerificationStatus :: "jsvalue \<Rightarrow> verificationStatus" where
  "asVerificationStatus v = (if v = Some (JStr (str ''verified'')) then verified else disputed)"

definition insertVerificationValue :: "env \<Rightarrow> body \<Rightarrow> insertVerification" where
  "insertVerificationValue e b =
     \<lparr> iv_grievanceId = asString (getProp b ''grievanceId''),
       iv_verificationType = asVerificationType (getProp b ''verificationType''),
       iv_status = asVerificationStatus (getProp b ''status''),
       iv_comments = asStringOpt (getProp b ''comments''),
       iv_evidenceFiles = asStringArrayOpt e (getProp b ''evidenceFiles'') \<rparr>"

definition insertVerificationSchema :: "env \<Rightarrow> body \<Rightarrow> zissue list + insertVerification" where
  "insertVerificationSchema e b =
     (if insertVerificationIssues b = [] then Inr (insertVerificationValue e b)
      else Inl (insertVerificationIssues b))"


section \<open>The request handlers (\<^verbatim>\<open>server/routes.ts\<close>)\<close>

text \<open>
  A handler takes the environment, the request and the store, and gives the response
  (status code and JSON body) and the store after it. The \<^verbatim>\<open>catch\<close> branch of a
  handler answers 400 to a \<^verbatim>\<open>ZodError\<close> and 500 to any other exception. The gateway
  operations of the model that throw are \<open>acceptGrievance\<close>, on a timeline that the
  integer column cannot hold, and the insertion of \<open>post_users\<close>; the store then keeps
  what the handler wrote before.
\<close>

datatype payload =
    ErrorBody string
  | ValidationFailed "zissue list"
  | GrievanceBody grievance
  | GrievanceList "grievance list"
  | VerificationBody verification
  | VerificationList "verification list"
  | BlockchainRecordList "blockchainRecord list"
  | UserBody user

datatype response = Response (code: nat) (payload: payload)

subsection \<open>The queries\<close>

definition get_grievances :: "store \<Rightarrow> response \<times> store" where
  "get_grievances s = (Response 200 (GrievanceList (getAllGrievances s)), s)"

definition pendingOrAssigned :: "grievance list \<Rightarrow> grievance list" where
  "pendingOrAssigned gs = filter (\<lambda>g. status g = pending \<or> status g = in_progress) gs"

definition get_grievances_assigned :: "store \<Rightarrow> response \<times> store" where
  "get_grievances_assigned s =
     (Response 200 (GrievanceList (pendingOrAssigned (getAllGrievances s))), s)"

definition get_grievance :: "jsstring \<Rightarrow> store \<Rightarrow> response \<times> store" where
  "get_grievance i s =
     (case getGrievance s i of
        None \<Rightarrow> (Response 404 (ErrorBody ''Grievance not found''), s)
      | Some g \<Rightarrow> (Response 200 (GrievanceBody g), s))"

definition get_verifications :: "jsstring \<Rightarrow> store \<Rightarrow> response \<times> store" where
  "get_verifications i s = (Response 200 (VerificationList (getVerificationsByGrievance s i)), s)"

definition get_blockchain :: "jsstring \<Rightarrow> store \<Rightarrow> response \<times> store" where
  "get_blockchain i s =
     (Response 200 (BlockchainRecordList (getBlockchainRecordsByGrievance s i)), s)"

text \<open>The list of grievances that a response carries.\<close>

definition listed :: "response \<Rightarrow> grievance list" where
  "listed r = (case payload r of GrievanceList gs \<Rightarrow> gs | _ \<Rightarrow> [])"

subsection \<open>\<^verbatim>\<open>POST /api/grievances\<close>\<close>

text \<open>\<^verbatim>\<open>v || null\<close>.\<close>

definition orNull :: "jsvalue \<Rightarrow> json" where
  "orNull v = (case v of None \<Rightarrow> JNull | Some x \<Rightarrow> if truthy v then x else JNull)"

text \<open>
  \<^verbatim>\<open>const { fullName, mobileNumber, email, ...grievanceData } = req.body\<close>: the rest
  object has every other key.
\<close>

definition grievanceData :: "body \<Rightarrow> body" where
  "grievanceData b =
     filter (\<lambda>(k, v). k \<noteq> str ''fullName'' \<and> k \<noteq> str ''mobileNumber'' \<and> k \<noteq> str ''email'') b"

text \<open>The argument of \<^verbatim>\<open>parse\<close>: \<^verbatim>\<open>{ ...grievanceData, email: email || null }\<close>.\<close>

definition parseArgument :: "body \<Rightarrow> body" where
  "parseArgument b = grievanceData b @ [(str ''email'', orNull (getProp b ''email''))]"

definition post_grievances :: "env \<Rightarrow> body \<Rightarrow> store \<Rightarrow> response \<times> store" where
  "post_grievances e b s =
     (let fullName = getProp b ''fullName'';
          mobileNumber = getProp b ''mobileNumber''
      in case insertGrievanceSchema e (parseArgument b) of
           Inl issues \<Rightarrow> (Response 400 (ValidationFailed issues), s)
         | Inr validatedData \<Rightarrow>
             if \<not> truthy fullName \<or> \<not> truthy mobileNumber
             then (Response 400 (ErrorBody ''Full name and mobile number are required''), s)
             else (let (g, s') = createGrievance e validatedData (str ''temp-user-id'')
                                   fullName mobileNumber s
                   in (Response 201 (GrievanceBody g), s')))"

subsection \<open>\<^verbatim>\<open>POST /api/grievances/:id/accept\<close>\<close>

text \<open>The default identities that the handlers create on first use.\<close>

definition panchayatOfficer :: insertUser where
  "panchayatOfficer =
     \<lparr> iu_username = str ''panchayat-officer'', iu_password = str ''temp'',
       iu_fullName = str ''Panchayat Officer'', iu_role = Some (str ''official''),
       iu_mobileNumber = str ''+919999999999'',
       iu_email = Some (str ''officer@panchayat.gov.in''),
       iu_villageName = Some (str ''Demo Village'') \<rparr>"

definition communityVerifier :: insertUser where
  "communityVerifier =
     \<lparr> iu_username = str ''community-verifier'', iu_password = str ''temp'',
       iu_fullName = str ''Community Verifier'', iu_role = Some (str ''citizen''),
       iu_mobileNumber = str ''+919888888888'',
       iu_email = Some (str ''verifier@community.local''),
       iu_villageName = Some (str ''Demo Village'') \<rparr>"

text \<open>
  \<^verbatim>\<open>let u = await storage.getUserByUsername(name); if (!u) u = await
  storage.createUser({...})\<close>.
\<close>

definition getOrCreateUser :: "env \<Rightarrow> insertUser \<Rightarrow> store \<Rightarrow> user \<times> store" where
  "getOrCreateUser e f s =
     (case getUserByUsername s (iu_username f) of
        Some u \<Rightarrow> (u, s)
      | None \<Rightarrow> createUser (uuid e 0) (dbNow e) f s)"

text \<open>The number that a value of type \<^verbatim>\<open>number\<close> is.\<close>

fun asNumber :: "jsvalue \<Rightarrow> jsnumber" where
  "asNumber (Some (JNum x)) = x"
| "asNumber _ = NaN"

definition post_accept :: "env \<Rightarrow> jsstring \<Rightarrow> body \<Rightarrow> store \<Rightarrow> response \<times> store" where
  "post_accept e i b s =
     (let resolutionTimeline' = getProp b ''resolutionTimeline''
      in if \<not> truthy resolutionTimeline' \<or> typeof resolutionTimeline' \<noteq> TNumber
         then (Response 400 (ErrorBody ''Resolution timeline is required''), s)
         else (let (officer, s1) = getOrCreateUser e panchayatOfficer s
               in case acceptGrievance s1 i (u_id officer) (asNumber resolutionTimeline') of
                    None \<Rightarrow> (Response 500 (ErrorBody ''Failed to accept grievance''), s1)
                  | Some (g, s2) \<Rightarrow>
                      (case g of
                         None \<Rightarrow> (Response 404 (ErrorBody ''Grievance not found''), s2)
                       | Some g' \<Rightarrow> (Response 200 (GrievanceBody g'), s2))))"

subsection \<open>\<^verbatim>\<open>PATCH /api/grievances/:id/status\<close>\<close>

text \<open>The value of a truthy (so defined) expression.\<close>

fun valueOf :: "jsvalue \<Rightarrow> json" where
  "valueOf (Some x) = x"
| "valueOf None = JNull"

text \<open>
  The object \<^verbatim>\<open>updates\<close> as the handler fills it. \<^verbatim>\<open>resolvedAt\<close> is the first
  \<^verbatim>\<open>new Date()\<close>; \<^verbatim>\<open>verificationDeadline\<close> starts as a second \<^verbatim>\<open>new Date()\<close>
  and is moved by \<^verbatim>\<open>setDate(getDate() + 7)\<close>.
\<close>

definition statusUpdates :: "env \<Rightarrow> jsvalue \<Rightarrow> jsvalue \<Rightarrow> jsvalue \<Rightarrow> updates" where
  "statusUpdates e st resolutionNotes' resolutionEvidence' =
     (let u0 = noUpdates;
          u1 = (if truthy resolutionNotes' then u0\<lparr>upd_resolutionNotes := resolutionNotes'\<rparr> else u0);
          u2 = (if truthy resolutionEvidence' then u1\<lparr>upd_resolutionEvidence := resolutionEvidence'\<rparr> else u1)
      in if st = Some resolved
         then u2\<lparr> upd_resolvedAt := Some (clock e 0),
                  upd_verificationDeadline := Some (addDays e (clock e 1) 7),
                  upd_status := Some pending_verification \<rparr>
         else u2)"

definition patch_status :: "env \<Rightarrow> jsstring \<Rightarrow> body \<Rightarrow> store \<Rightarrow> response \<times> store" where
  "patch_status e i b s =
     (let st = getProp b ''status'';
          resolutionNotes' = getProp b ''resolutionNotes'';
          resolutionEvidence' = getProp b ''resolutionEvidence''
      in if \<not> truthy st
         then (Response 400 (ErrorBody ''Status is required''), s)
         else (let upds = statusUpdates e st resolutionNotes' resolutionEvidence';
                   (g, s') = updateGrievanceStatus s i
                               (if st = Some resolved then pending_verification else valueOf st)
                               (Some upds)
               in case g of
                    None \<Rightarrow> (Response 404 (ErrorBody ''Grievance not found''), s')
                  | Some g' \<Rightarrow> (Response 200 (GrievanceBody g'), s')))"

subsection \<open>\<^verbatim>\<open>POST /api/verifications\<close>\<close>

text \<open>The status update that follows the creation of the verification row.\<close>

definition rederiveStatus :: "insertVerification \<Rightarrow> store \<Rightarrow> store" where
  "rederiveStatus validatedData s =
     (if iv_verificationType validatedData = verify \<and> iv_status validatedData = verified
      then snd (updateGrievanceStatus s (iv_grievanceId validatedData) resolved None)
      else if iv_verificationType validatedData = dispute \<and> iv_status validatedData = disputed
      then snd (updateGrievanceStatus s (iv_grievanceId validatedData) in_progress None)
      else s)"

definition post_verifications :: "env \<Rightarrow> body \<Rightarrow> store \<Rightarrow> response \<times> store" where
  "post_verifications e b s =
     (case insertVerificationSchema e b of
        Inl issues \<Rightarrow> (Response 400 (ValidationFailed issues), s)
      | Inr validatedData \<Rightarrow>
          (let (verifier, s1) = getOrCreateUser e communityVerifier s;
               (verification, s2) = createVerification (uuid e 1) (dbNow e) validatedData
                                      (u_id verifier) s1
           in (Response 201 (VerificationBody verification), rederiveStatus validatedData s2)))"

subsection \<open>\<^verbatim>\<open>POST /api/users\<close>\<close>

text \<open>
  The handler passes the unvalidated body to \<^verbatim>\<open>createUser\<close>. Which bodies the
  gateway takes as the fields of a user is not said anywhere, so that is the parameter
  \<open>userFields\<close>: \<open>None\<close> when the insertion throws (status 500).
\<close>

definition post_users :: "env \<Rightarrow> body \<Rightarrow> store \<Rightarrow> response \<times> store" where
  "post_users e b s =
     (case userFields e b of
        None \<Rightarrow> (Response 500 (ErrorBody ''Failed to create user''), s)
      | Some f \<Rightarrow> (let (u, s') = createUser (uuid e 0) (dbNow e) f s
                   in (Response 201 (UserBody u), s')))"

subsection \<open>The server\<close>

text \<open>The ten routes that \<^verbatim>\<open>registerRoutes\<close> installs, and the handling of one request.\<close>

datatype request =
    GET_grievances
  | GET_grievances_assigned
  | GET_grievance jsstring
  | POST_grievances body
  | POST_accept jsstring body
  | PATCH_status jsstring body
  | POST_verifications body
  | GET_verifications jsstring
  | GET_blockchain jsstring
  | POST_users body

fun handle :: "env \<Rightarrow> request \<Rightarrow> store \<Rightarrow> response \<times> store" where
  "handle e GET_grievances s = get_grievances s"
| "handle e GET_grievances_assigned s = get_grievances_assigned s"
| "handle e (GET_grievance i) s = get_grievance i s"
| "handle e (POST_grievances b) s = post_grievances e b s"
| "handle e (POST_accept i b) s = post_accept e i b s"
| "handle e (PATCH_status i b) s = patch_status e i b s"
| "handle e (POST_verifications b) s = post_verifications e b s"
| "handle e (GET_verifications i) s = get_verifications i s"
| "handle e (GET_blockchain i) s = get_blockchain i s"
| "handle e (POST_users b) s = post_users e b s"

text \<open>
  A sequence of requests, each with the environment it runs in; the store after the last.
\<close>

fun run :: "(env \<times> request) list \<Rightarrow> store \<Rightarrow> store" where
  "run [] s = s"
| "run ((e, r) # rs) s = run rs (snd (handle e r s))"

text \<open>The status of the grievance with the id \<open>i\<close>, when there is one.\<close>

definition statusOf :: "store \<Rightarrow> jsstring \<Rightarrow> json option" where
  "statusOf s i = map_option status (getGrievance s i)"

section \<open>Sample data\<close>

text \<open>
  \<^verbatim>\<open>String\<close> on the values that the sample bodies hold in their arrays: \<^verbatim>\<open>null\<close>,
  the booleans and the number 1 (the sample server is asked for no other).
\<close>

definition sampleString :: "json \<Rightarrow> jsstring" where
  "sampleString v =
     (case v of
        JNull \<Rightarrow> str ''null''
      | JBool b \<Rightarrow> (if b then str ''true'' else str ''false'')
      | JNum x \<Rightarrow> (if x = Fin 1 then str ''1'' else [])
      | _ \<Rightarrow> [])"

text \<open>
  A server in UTC whose clock advances by one millisecond between two readings, and the
  same server with a clock that stands still.
\<close>

definition env0 :: env where
  "env0 = \<lparr> clock = (\<lambda>k. 1000 + int k), dbNow = 900,
            uuid = (\<lambda>k. if k = 0 then str ''id-0'' else str ''id-1''),
            grievanceNo = str ''GRV-0002'',
            tzUTC = (\<lambda>t. 0), tzLocal = (\<lambda>t. 0),
            linkOwner = (\<lambda>ownerId n m us. (ownerId, us)),
            userFields = (\<lambda>b. None),
            stringOf = sampleString \<rparr>"

definition env1 :: env where
  "env1 = env0\<lparr>clock := (\<lambda>k. 1000)\<rparr>"

text \<open>A stored grievance \<^verbatim>\<open>g-1\<close> in a given status, alone in the store.\<close>

definition longDescription :: string where
  "longDescription = ''The hand pump near the school has been broken for two weeks.''"

definition grievance0 :: "json \<Rightarrow> grievance" where
  "grievance0 st =
     \<lparr> gid = str ''g-1'', grievanceNumber = str ''GRV-0001'', userId = str ''temp-user-id'',
       title = str ''Broken hand pump'', category = str ''Water Supply'',
       description = str longDescription,
       villageName = str ''Rampur'', status = st, priority = str ''medium'',
       evidenceFiles = None, voiceRecordingUrl = None, voiceTranscription = None,
       assignedTo = None, resolutionTimeline = None, dueDate = None, resolvedAt = None,
       resolutionNotes = None, resolutionEvidence = None, verificationDeadline = None,
       isEscalated = Some False, escalatedAt = None, createdAt = 100, updatedAt = 100 \<rparr>"

definition store0 :: "json \<Rightarrow> store" where
  "store0 st = \<lparr> users = [], grievances = [grievance0 st], verifications = [],
                 blockchainRecords = [] \<rparr>"



definition emptyStore :: store where
  "emptyStore = \<lparr> users = [], grievances = [], verifications = [], blockchainRecords = [] \<rparr>"

text \<open>
  Request bodies: a creation with a given title, category and description; a verification
  of \<^verbatim>\<open>g-1\<close> with a given type and status; a status update that requests a given
  status, and one that requests \<^verbatim>\<open>resolved\<close> with notes; an acceptance with a given
  timeline; client values for nine of the keys that the creation validator omits.
\<close>

definition grievanceBody :: "string \<Rightarrow> string \<Rightarrow> string \<Rightarrow> body" where
  "grievanceBody t c d =
     [(str ''title'', JStr (str t)),
      (str ''category'', JStr (str c)),
      (str ''description'', JStr (str d)),
      (str ''villageName'', JStr (str ''Rampur'')),
      (str ''fullName'', JStr (str ''A B'')),
      (str ''mobileNumber'', JStr (str ''+911234567890''))]"

definition verificationBody :: "string \<Rightarrow> string \<Rightarrow> body" where
  "verificationBody ty st =
     [(str ''grievanceId'', JStr (str ''g-1'')),
      (str ''verificationType'', JStr (str ty)),
      (str ''status'', JStr (str st))]"


definition statusBody :: "jsstring \<Rightarrow> body" where
  "statusBody x = [(str ''status'', JStr x)]"

definition resolveBody :: body where
  "resolveBody =
     [(str ''status'', resolved), (str ''resolutionNotes'', JStr (str ''Pump replaced''))]"

definition timelineBody :: "json \<Rightarrow> body" where
  "timelineBody v = [(str ''resolutionTimeline'', v)]"

definition forged :: body where
  "forged =
     [(str ''id'', JStr (str ''g-1'')), (str ''grievanceNumber'', JStr (str ''GRV-0001'')),
      (str ''status'', resolved), (str ''userId'', JStr (str ''admin'')),
      (str ''assignedTo'', JStr (str ''admin'')), (str ''resolvedAt'', JNum (Fin 1)),
      (str ''verificationDeadline'', JNum (Fin 2)), (str ''createdAt'', JNum (Fin 3)),
      (str ''updatedAt'', JNum (Fin 4))]"

text \<open>Requests to the sample server.\<close>

definition createRequest :: "env \<times> request" where
  "createRequest =
     (env0, POST_grievances (grievanceBody ''Broken hand pump'' ''Water Supply'' longDescription))"

definition acceptRequest :: "env \<times> request" where
  "acceptRequest = (env0, POST_accept (str ''g-1'') (timelineBody (JNum (Fin 7))))"

definition resolveRequest :: "jsstring \<Rightarrow> env \<times> request" where
  "resolveRequest i = (env0, PATCH_status i (statusBody (str ''resolved'')))"

definition verificationRequest :: "string \<Rightarrow> string \<Rightarrow> env \<times> request" where
  "verificationRequest ty st = (env0, POST_verifications (verificationBody ty st))"

section \<open>The handlers in normal form\<close>

text \<open>
  What \<^verbatim>\<open>accept\<close> and the status update write into a row, when \<^verbatim>\<open>accept\<close>
  passes its guard, and when the gateway can write its timeline: the terms that the
  definitions of \<open>post_accept\<close>, \<open>acceptGrievance\<close> and \<open>patch_status\<close> contain, named.
\<close>

definition accepts :: "body \<Rightarrow> bool" where
  "accepts b =
     (truthy (getProp b ''resolutionTimeline'') \<and> typeof (getProp b ''resolutionTimeline'') = TNumber)"

definition writable :: "body \<Rightarrow> bool" where
  "writable b = isInt32 (asNumber (getProp b ''resolutionTimeline''))"

definition accepted :: "env \<Rightarrow> body \<Rightarrow> store \<Rightarrow> grievance \<Rightarrow> grievance" where
  "accepted e b s g =
     g\<lparr>assignedTo := Some (u_id (fst (getOrCreateUser e panchayatOfficer s))),
       resolutionTimeline := Some (integerOf (asNumber (getProp b ''resolutionTimeline''))),
       status := in_progress\<rparr>"

definition patched :: "env \<Rightarrow> body \<Rightarrow> grievance \<Rightarrow> grievance" where
  "patched e b g =
     mergeUpdates
       (statusUpdates e (getProp b ''status'') (getProp b ''resolutionNotes'')
          (getProp b ''resolutionEvidence''))
       (g\<lparr>status := (if getProp b ''status'' = Some resolved then pending_verification
                      else valueOf (getProp b ''status''))\<rparr>)"

text \<open>The two combinations after which \<^verbatim>\<open>POST /api/verifications\<close> writes a status.\<close>

definition verifies :: "body \<Rightarrow> bool" where
  "verifies b = (getProp b ''verificationType'' = Some (JStr (str ''verify'')) \<and>
                 getProp b ''status'' = Some (JStr (str ''verified'')))"

definition disputes :: "body \<Rightarrow> bool" where
  "disputes b = (getProp b ''verificationType'' = Some (JStr (str ''dispute'')) \<and>
                 getProp b ''status'' = Some (JStr (str ''disputed'')))"

subsection \<open>Rows and tables\<close>

lemma find_updated:
  assumes "\<And>g. gid (f g) = gid g"
  shows "find (\<lambda>g. gid g = j) (map (\<lambda>g. if gid g = i then f g else g) xs) =
         (if j = i then map_option f (find (\<lambda>g. gid g = i) xs) else find (\<lambda>g. gid g = j) xs)"
  using assms by (induction xs) auto

lemma getGrievance_updateRows:
  assumes "\<And>g. gid (f g) = gid g"
  shows "getGrievance (snd (updateRows i f s)) j =
     (if j = i then map_option f (getGrievance s i) else getGrievance s j)"
  using find_updated [OF assms] by (simp add: getGrievance_def updateRows_def Let_def)

lemma fst_updateRows:
  assumes "\<And>g. gid (f g) = gid g"
  shows "fst (updateRows i f s) = map_option f (getGrievance s i)"
  using find_updated [OF assms, of i i] by (simp add: getGrievance_def updateRows_def Let_def)

lemma tables_updateRows [simp]:
  "users (snd (updateRows i f s)) = users s"
  "verifications (snd (updateRows i f s)) = verifications s"
  "blockchainRecords (snd (updateRows i f s)) = blockchainRecords s"
  by (simp_all add: updateRows_def Let_def)

lemma tables_createUser [simp]:
  "grievances (snd (createUser n t f s)) = grievances s"
  "verifications (snd (createUser n t f s)) = verifications s"
  "blockchainRecords (snd (createUser n t f s)) = blockchainRecords s"
  by (simp_all add: createUser_def Let_def)

lemma tables_getOrCreateUser [simp]:
  "grievances (snd (getOrCreateUser e f s)) = grievances s"
  "verifications (snd (getOrCreateUser e f s)) = verifications s"
  "blockchainRecords (snd (getOrCreateUser e f s)) = blockchainRecords s"
  by (simp_all add: getOrCreateUser_def split: option.splits)

lemma tables_createVerification [simp]:
  "grievances (snd (createVerification n t v u s)) = grievances s"
  "users (snd (createVerification n t v u s)) = users s"
  "verifications (snd (createVerification n t v u s)) =
     verifications s @ [fst (createVerification n t v u s)]"
  by (simp_all add: createVerification_def Let_def)

lemma getGrievance_cong:
  "grievances s = grievances s' \<Longrightarrow> getGrievance s i = getGrievance s' i"
  by (simp add: getGrievance_def)

lemma getGrievance_getOrCreateUser [simp]:
  "getGrievance (snd (getOrCreateUser e f s)) i = getGrievance s i"
  by (simp add: getGrievance_def)

lemma getGrievance_createVerification [simp]:
  "getGrievance (snd (createVerification n t v u s)) i = getGrievance s i"
  by (simp add: getGrievance_def)

lemma gid_mergeUpdates [simp]: "gid (mergeUpdates u g) = gid g"
  by (simp add: mergeUpdates_def)

lemma gid_accepted [simp]: "gid (accepted e b s g) = gid g"
  by (simp add: accepted_def)

lemma gid_patched [simp]: "gid (patched e b g) = gid g"
  by (simp add: patched_def)

subsection \<open>Validators\<close>

lemma zEnum_Nil_iff: "(zEnum vals k v = []) = (\<exists>x. v = Some (JStr x) \<and> x \<in> str ` set vals)"
  by (auto simp: zEnum_def split: option.splits json.splits)

lemma zString_Nil_iff: "(zString k v = []) = (\<exists>x. v = Some (JStr x))"
  by (auto simp: zString_def split: option.splits json.splits)


subsection \<open>\<^verbatim>\<open>accept\<close>\<close>

lemma accepted_eq:
  "(\<lambda>g. g\<lparr>assignedTo := Some (u_id (fst (getOrCreateUser e panchayatOfficer s))),
          resolutionTimeline := Some (integerOf (asNumber (getProp b ''resolutionTimeline''))),
          status := in_progress\<rparr>) = accepted e b s"
  by (rule ext) (simp add: accepted_def)

lemma post_accept_rejected:
  "\<not> accepts b \<Longrightarrow>
     post_accept e i b s = (Response 400 (ErrorBody ''Resolution timeline is required''), s)"
  by (simp add: post_accept_def accepts_def)

lemma post_accept_failed:
  "accepts b \<Longrightarrow> \<not> writable b \<Longrightarrow>
     post_accept e i b s =
       (Response 500 (ErrorBody ''Failed to accept grievance''),
        snd (getOrCreateUser e panchayatOfficer s))"
  by (simp add: post_accept_def accepts_def writable_def acceptGrievance_def case_prod_beta Let_def)

lemma post_accept_accepted:
  assumes "accepts b" and "writable b"
  shows "post_accept e i b s =
     ((case getGrievance s i of
         None \<Rightarrow> Response 404 (ErrorBody ''Grievance not found'')
       | Some g \<Rightarrow> Response 200 (GrievanceBody (accepted e b s g))),
      snd (updateRows i (accepted e b s) (snd (getOrCreateUser e panchayatOfficer s))))"
proof -
  let ?s1 = "snd (getOrCreateUser e panchayatOfficer s)"
  have "post_accept e i b s =
     ((case fst (updateRows i (accepted e b s) ?s1) of
         None \<Rightarrow> Response 404 (ErrorBody ''Grievance not found'')
       | Some g \<Rightarrow> Response 200 (GrievanceBody g)),
      snd (updateRows i (accepted e b s) ?s1))"
    using assms
    by (simp add: post_accept_def accepts_def writable_def acceptGrievance_def case_prod_beta
        Let_def accepted_eq split: option.splits)
  also have "fst (updateRows i (accepted e b s) ?s1) = map_option (accepted e b s) (getGrievance s i)"
    by (simp add: fst_updateRows)
  finally show ?thesis by (simp split: option.splits)
qed

lemma getGrievance_post_accept:
  "getGrievance (snd (post_accept e i b s)) j =
     (if j = i \<and> accepts b \<and> writable b then map_option (accepted e b s) (getGrievance s i)
      else getGrievance s j)"
proof (cases "accepts b")
  case True
  then show ?thesis
    by (cases "writable b")
       (simp_all add: post_accept_accepted post_accept_failed getGrievance_updateRows)
next
  case False
  then show ?thesis by (simp add: post_accept_rejected)
qed

subsection \<open>The status update\<close>

lemma patched_eq:
  "(\<lambda>g. mergeUpdates
       (statusUpdates e (getProp b ''status'') (getProp b ''resolutionNotes'')
          (getProp b ''resolutionEvidence''))
       (g\<lparr>status := (if getProp b ''status'' = Some resolved then pending_verification
                      else valueOf (getProp b ''status''))\<rparr>)) = patched e b"
  by (rule ext) (simp add: patched_def)

lemma patch_status_rejected:
  "\<not> truthy (getProp b ''status'') \<Longrightarrow>
     patch_status e i b s = (Response 400 (ErrorBody ''Status is required''), s)"
  by (simp add: patch_status_def)

lemma patch_status_patched:
  assumes "truthy (getProp b ''status'')"
  shows "patch_status e i b s =
     ((case getGrievance s i of
         None \<Rightarrow> Response 404 (ErrorBody ''Grievance not found'')
       | Some g \<Rightarrow> Response 200 (GrievanceBody (patched e b g))),
      snd (updateRows i (patched e b) s))"
proof -
  have "patch_status e i b s =
     ((case fst (updateRows i (patched e b) s) of
         None \<Rightarrow> Response 404 (ErrorBody ''Grievance not found'')
       | Some g \<Rightarrow> Response 200 (GrievanceBody g)),
      snd (updateRows i (patched e b) s))"
    unfolding patch_status_def updateGrievanceStatus_def Let_def option.case patched_eq
    using assms by (simp add: case_prod_beta split: option.splits)
  also have "fst (updateRows i (patched e b) s) = map_option (patched e b) (getGrievance s i)"
    by (simp add: fst_updateRows)
  finally show ?thesis by (simp split: option.splits)
qed

lemma getGrievance_patch_status:
  "getGrievance (snd (patch_status e i b s)) j =
     (if j = i \<and> truthy (getProp b ''status'') then map_option (patched e b) (getGrievance s i)
      else getGrievance s j)"
proof (cases "truthy (getProp b ''status'')")
  case True
  then show ?thesis
    by (simp add: patch_status_patched getGrievance_updateRows)
next
  case False
  then show ?thesis by (simp add: patch_status_rejected)
qed

subsection \<open>The verification\<close>

lemma post_verifications_invalid:
  "insertVerificationIssues b \<noteq> [] \<Longrightarrow>
     post_verifications e b s = (Response 400 (ValidationFailed (insertVerificationIssues b)), s)"
  by (simp add: post_verifications_def insertVerificationSchema_def)

lemma valid_verification:
  assumes "insertVerificationIssues b = []"
  shows "getProp b ''verificationType'' = Some (JStr (str ''verify''))
        \<or> getProp b ''verificationType'' = Some (JStr (str ''dispute''))"
    and "getProp b ''status'' = Some (JStr (str ''verified''))
        \<or> getProp b ''status'' = Some (JStr (str ''disputed''))"
    and "\<exists>i. getProp b ''grievanceId'' = Some (JStr i)"
  using assms by (auto simp: insertVerificationIssues_def field_def zEnum_Nil_iff zString_Nil_iff)

lemma rederiveStatus_value:
  assumes "insertVerificationIssues b = []"
  shows "rederiveStatus (insertVerificationValue e b) s =
     (if verifies b
      then snd (updateRows (asString (getProp b ''grievanceId'')) (\<lambda>g. g\<lparr>status := resolved\<rparr>) s)
      else if disputes b
      then snd (updateRows (asString (getProp b ''grievanceId'')) (\<lambda>g. g\<lparr>status := in_progress\<rparr>) s)
      else s)"
  using valid_verification [OF assms]
  by (auto simp: rederiveStatus_def insertVerificationValue_def asVerificationType_def
      asVerificationStatus_def verifies_def disputes_def updateGrievanceStatus_def)


lemma verifications_rederiveStatus [simp]:
  "verifications (rederiveStatus v s) = verifications s"
  by (simp add: rederiveStatus_def updateGrievanceStatus_def)

lemma post_verifications_valid:
  assumes "insertVerificationIssues b = []"
  shows "post_verifications e b s =
     (let u = getOrCreateUser e communityVerifier s;
          c = createVerification (uuid e 1) (dbNow e) (insertVerificationValue e b)
                (u_id (fst u)) (snd u)
      in (Response 201 (VerificationBody (fst c)),
          rederiveStatus (insertVerificationValue e b) (snd c)))"
  using assms
  by (simp add: post_verifications_def insertVerificationSchema_def case_prod_beta Let_def)

lemma getGrievance_post_verifications:
  assumes "insertVerificationIssues b = []"
  shows "getGrievance (snd (post_verifications e b s)) j =
     (if j = asString (getProp b ''grievanceId'') \<and> verifies b
      then map_option (\<lambda>g. g\<lparr>status := resolved\<rparr>) (getGrievance s j)
      else if j = asString (getProp b ''grievanceId'') \<and> disputes b
      then map_option (\<lambda>g. g\<lparr>status := in_progress\<rparr>) (getGrievance s j)
      else getGrievance s j)"
  by (simp add: post_verifications_valid [OF assms] rederiveStatus_value [OF assms] Let_def
      getGrievance_updateRows)


subsection \<open>The sample data\<close>

lemma valid_verificationBody:
  "ty \<in> {''verify'', ''dispute''} \<Longrightarrow> st \<in> {''verified'', ''disputed''} \<Longrightarrow>
     insertVerificationIssues (verificationBody ty st) = []"
  by (auto simp: insertVerificationIssues_def verificationBody_def field_def getProp_def
      zEnum_def zString_def zOptional_def)

lemma getProp_verificationBody:
  "getProp (verificationBody ty st) ''grievanceId'' = Some (JStr (str ''g-1''))"
  "getProp (verificationBody ty st) ''verificationType'' = Some (JStr (str ty))"
  "getProp (verificationBody ty st) ''status'' = Some (JStr (str st))"
  by (simp_all add: getProp_def verificationBody_def)



lemma getGrievance_store0: "getGrievance (store0 st) (str ''g-1'') = Some (grievance0 st)"
  by (simp add: getGrievance_def store0_def grievance0_def)


lemma getProp_resolveBody:
  "getProp resolveBody ''status'' = Some resolved"
  "getProp resolveBody ''resolutionNotes'' = Some (JStr (str ''Pump replaced''))"
  "getProp resolveBody ''resolutionEvidence'' = None"
  by (simp_all add: resolveBody_def getProp_def)

subsection \<open>What the status update writes\<close>

lemma status_patched:
  "status (patched e b g) =
     (if getProp b ''status'' = Some resolved then pending_verification
      else valueOf (getProp b ''status''))"
  by (simp add: patched_def mergeUpdates_def statusUpdates_def Let_def noUpdates_def)

lemma notes_patched:
  "resolutionNotes (patched e b g) =
     (if truthy (getProp b ''resolutionNotes'') then getProp b ''resolutionNotes''
      else resolutionNotes g)"
  "resolutionEvidence (patched e b g) =
     (if truthy (getProp b ''resolutionEvidence'') then getProp b ''resolutionEvidence''
      else resolutionEvidence g)"
  by (auto simp: patched_def mergeUpdates_def statusUpdates_def Let_def noUpdates_def
      split: option.splits)

lemma dates_patched:
  "resolvedAt (patched e b g) =
     (if getProp b ''status'' = Some resolved then Some (clock e 0) else resolvedAt g)"
  "verificationDeadline (patched e b g) =
     (if getProp b ''status'' = Some resolved then Some (addDays e (clock e 1) 7)
      else verificationDeadline g)"
  by (simp_all add: patched_def mergeUpdates_def statusUpdates_def Let_def noUpdates_def)

subsection \<open>The guard of \<^verbatim>\<open>accept\<close> and the officer\<close>

lemma accepts_iff:
  "accepts b = (\<exists>n. getProp b ''resolutionTimeline'' = Some (JNum n) \<and> n \<noteq> Fin 0 \<and> n \<noteq> NaN)"
proof (cases "getProp b ''resolutionTimeline''")
  case None
  then show ?thesis by (simp add: accepts_def)
next
  case (Some v)
  show ?thesis
  proof (cases v)
    case (JNum n)
    with Some show ?thesis by (cases n) (simp_all add: accepts_def)
  qed (simp_all add: accepts_def Some)
qed

lemma isInt32_of_int:
  "isInt32 (Fin (of_int k)) = (- 2147483648 \<le> k \<and> k \<le> 2147483647)"
proof -
  have "(of_int k < (- 2147483648 :: rat)) = (k < - 2147483648)"
    using of_int_less_iff [of k "- 2147483648", where ?'a = rat] by simp
  moreover have "((2147483647 :: rat) < of_int k) = (2147483647 < k)"
    using of_int_less_iff [of 2147483647 k, where ?'a = rat] by simp
  ultimately show ?thesis
    by (auto simp: isInt32_def)
qed

lemma writable_int32:
  "getProp b ''resolutionTimeline'' = Some (JNum (Fin (of_int k))) \<and> k \<noteq> 0 \<and>
     - 2147483648 \<le> k \<and> k \<le> 2147483647 \<and> P \<Longrightarrow> writable b"
  by (simp add: writable_def isInt32_of_int)

lemma find_append:
  "find P (xs @ ys) = (case find P xs of None \<Rightarrow> find P ys | Some x \<Rightarrow> Some x)"
  by (induction xs) auto

lemma getUserByUsername_getOrCreateUser:
  "getUserByUsername (snd (getOrCreateUser e f s)) (iu_username f) = Some (fst (getOrCreateUser e f s))"
proof (cases "getUserByUsername s (iu_username f)")
  case None
  then show ?thesis
    by (simp add: getOrCreateUser_def createUser_def Let_def getUserByUsername_def find_append)
next
  case (Some u)
  then show ?thesis by (simp add: getOrCreateUser_def)
qed

lemma getUserByUsername_updateRows [simp]:
  "getUserByUsername (snd (updateRows i f s)) n = getUserByUsername s n"
  by (simp add: getUserByUsername_def)

lemma getProp_timelineBody: "getProp (timelineBody v) ''resolutionTimeline'' = Some v"
  by (simp add: timelineBody_def getProp_def)

subsection \<open>The creation of a grievance\<close>

lemma map_of_filter_key:
  "map_of (filter (\<lambda>(k, v). Q k) b) k = (if Q k then map_of b k else None)"
  by (induction b) auto

lemma getProp_parseArgument:
  "k \<noteq> ''fullName'' \<Longrightarrow> k \<noteq> ''mobileNumber'' \<Longrightarrow> k \<noteq> ''email'' \<Longrightarrow>
     getProp (parseArgument b) k = getProp b k"
  by (simp add: getProp_def parseArgument_def grievanceData_def map_of_filter_key
      map_add_def split: option.splits)

lemma issues_parseArgument:
  "titleIssues (parseArgument b) = titleIssues b"
  "categoryIssues (parseArgument b) = categoryIssues b"
  "descriptionIssues (parseArgument b) = descriptionIssues b"
  "columnIssues (parseArgument b) = columnIssues b"
  by (simp_all add: titleIssues_def categoryIssues_def descriptionIssues_def columnIssues_def
      field_def getProp_parseArgument)

lemma insertGrievanceIssues_parseArgument:
  "insertGrievanceIssues (parseArgument b) = insertGrievanceIssues b"
  by (simp add: insertGrievanceIssues_def issues_parseArgument)

lemma insertGrievanceValue_parseArgument:
  "insertGrievanceValue e (parseArgument b) = insertGrievanceValue e b"
  by (simp add: insertGrievanceValue_def getProp_parseArgument)

lemma post_grievances_invalid:
  "insertGrievanceIssues b \<noteq> [] \<Longrightarrow>
     post_grievances e b s = (Response 400 (ValidationFailed (insertGrievanceIssues b)), s)"
  by (simp add: post_grievances_def insertGrievanceSchema_def insertGrievanceIssues_parseArgument)

lemma post_grievances_valid:
  "insertGrievanceIssues b = [] \<Longrightarrow>
     post_grievances e b s =
       (if \<not> truthy (getProp b ''fullName'') \<or> \<not> truthy (getProp b ''mobileNumber'')
        then (Response 400 (ErrorBody ''Full name and mobile number are required''), s)
        else (Response 201 (GrievanceBody (fst (createGrievance e (insertGrievanceValue e b)
                  (str ''temp-user-id'') (getProp b ''fullName'') (getProp b ''mobileNumber'') s))),
              snd (createGrievance e (insertGrievanceValue e b)
                  (str ''temp-user-id'') (getProp b ''fullName'') (getProp b ''mobileNumber'') s)))"
  by (simp add: post_grievances_def insertGrievanceSchema_def insertGrievanceIssues_parseArgument
      insertGrievanceValue_parseArgument case_prod_beta Let_def)




lemma categoryIssues_Nil_iff:
  "(categoryIssues b = []) =
     (\<exists>c. getProp b ''category'' = Some (JStr (str c)) \<and> c \<in> set categories)"
  unfolding categoryIssues_def field_def zEnum_Nil_iff by blast

lemma getProp_grievanceBody:
  "getProp (grievanceBody t c d) ''title'' = Some (JStr (str t))"
  "getProp (grievanceBody t c d) ''category'' = Some (JStr (str c))"
  "getProp (grievanceBody t c d) ''description'' = Some (JStr (str d))"
  "getProp (grievanceBody t c d) ''fullName'' = Some (JStr (str ''A B''))"
  "getProp (grievanceBody t c d) ''mobileNumber'' = Some (JStr (str ''+911234567890''))"
  by (simp_all add: getProp_def grievanceBody_def)

lemma columnIssues_grievanceBody: "columnIssues (grievanceBody t c d) = []"
  by (simp add: columnIssues_def field_def getProp_def grievanceBody_def zString_def zOptional_def)

lemma length_longDescription: "length longDescription = 60"
  by (simp add: longDescription_def)

lemma issues_grievanceBody:
  "10 \<le> length t \<Longrightarrow> titleIssues (grievanceBody t c d) = []"
  "50 \<le> length d \<Longrightarrow> descriptionIssues (grievanceBody t c d) = []"
  by (simp_all add: titleIssues_def descriptionIssues_def field_def getProp_grievanceBody
      zStringMin_def)

subsection \<open>Bodies that differ in omitted keys only\<close>

lemma inj_str: "inj str"
  by (simp add: inj_def)

lemma getProp_agree:
  assumes "\<forall>k. k \<notin> str ` set omitted \<longrightarrow> map_of b k = map_of b' k"
      and "k \<notin> set omitted"
  shows "getProp b k = getProp b' k"
  using assms by (simp add: getProp_def inj_image_mem_iff [OF inj_str])

lemma insertGrievanceIssues_agree:
  assumes "\<forall>k. k \<notin> str ` set omitted \<longrightarrow> map_of b k = map_of b' k"
  shows "insertGrievanceIssues b = insertGrievanceIssues b'"
  by (simp add: insertGrievanceIssues_def titleIssues_def categoryIssues_def
      descriptionIssues_def columnIssues_def field_def getProp_agree [OF assms] omitted_def)

lemma insertGrievanceValue_agree:
  assumes "\<forall>k. k \<notin> str ` set omitted \<longrightarrow> map_of b k = map_of b' k"
  shows "insertGrievanceValue e b = insertGrievanceValue e b'"
  by (simp add: insertGrievanceValue_def getProp_agree [OF assms] omitted_def)

lemma forged_agree:
  "\<forall>k. k \<notin> str ` set omitted \<longrightarrow> map_of (forged @ b) k = map_of b k"
  by (auto simp: forged_def omitted_def map_add_def split: option.splits)

subsection \<open>The status of a grievance after one request\<close>

lemma getGrievance_post_grievances:
  "getGrievance s i = Some g \<Longrightarrow> getGrievance (snd (post_grievances e b s)) i = Some g"
  by (cases "insertGrievanceIssues b = []")
     (simp_all add: post_grievances_valid post_grievances_invalid createGrievance_def
        case_prod_beta Let_def getGrievance_def find_append)

lemma getGrievance_post_users:
  "getGrievance (snd (post_users e b s)) i = getGrievance s i"
  by (simp add: post_users_def getGrievance_def case_prod_beta split: option.splits)

lemma statusOf_queries:
  "statusOf (snd (get_grievances s)) i = statusOf s i"
  "statusOf (snd (get_grievances_assigned s)) i = statusOf s i"
  "statusOf (snd (get_grievance j s)) i = statusOf s i"
  "statusOf (snd (get_verifications j s)) i = statusOf s i"
  "statusOf (snd (get_blockchain j s)) i = statusOf s i"
  by (simp_all add: get_grievances_def get_grievances_assigned_def get_grievance_def
      get_verifications_def get_blockchain_def split: option.splits)

lemma status_accepted: "status (accepted e b s g) = in_progress"
  by (simp add: accepted_def)

lemma status_step:
  "(statusOf s i = Some st \<longrightarrow>
     (\<exists>st'. statusOf (snd (handle e r s)) i = Some st' \<and>
        (st' = st \<or>
         (\<exists>b. r = POST_accept i b \<and> st' = in_progress) \<or>
         (\<exists>b. r = PATCH_status i b \<and> getProp b ''status'' = Some resolved \<and>
              st' = pending_verification) \<or>
         (\<exists>b. r = PATCH_status i b \<and> getProp b ''status'' = Some st' \<and> st' \<noteq> resolved) \<or>
         (\<exists>b. r = POST_verifications b \<and> getProp b ''grievanceId'' = Some (JStr i) \<and>
              getProp b ''verificationType'' = Some (JStr (str ''verify'')) \<and>
              getProp b ''status'' = Some (JStr (str ''verified'')) \<and> st' = resolved) \<or>
         (\<exists>b. r = POST_verifications b \<and> getProp b ''grievanceId'' = Some (JStr i) \<and>
              getProp b ''verificationType'' = Some (JStr (str ''dispute'')) \<and>
              getProp b ''status'' = Some (JStr (str ''disputed'')) \<and> st' = in_progress))))"
proof
  assume st: "statusOf s i = Some st"
  then obtain g where g: "getGrievance s i = Some g" "status g = st"
    by (auto simp: statusOf_def)
  show "\<exists>st'. statusOf (snd (handle e r s)) i = Some st' \<and>
        (st' = st \<or>
         (\<exists>b. r = POST_accept i b \<and> st' = in_progress) \<or>
         (\<exists>b. r = PATCH_status i b \<and> getProp b ''status'' = Some resolved \<and>
              st' = pending_verification) \<or>
         (\<exists>b. r = PATCH_status i b \<and> getProp b ''status'' = Some st' \<and> st' \<noteq> resolved) \<or>
         (\<exists>b. r = POST_verifications b \<and> getProp b ''grievanceId'' = Some (JStr i) \<and>
              getProp b ''verificationType'' = Some (JStr (str ''verify'')) \<and>
              getProp b ''status'' = Some (JStr (str ''verified'')) \<and> st' = resolved) \<or>
         (\<exists>b. r = POST_verifications b \<and> getProp b ''grievanceId'' = Some (JStr i) \<and>
              getProp b ''verificationType'' = Some (JStr (str ''dispute'')) \<and>
              getProp b ''status'' = Some (JStr (str ''disputed'')) \<and> st' = in_progress))"
  proof (cases r)
    case (POST_grievances b)
    with g show ?thesis by (simp add: statusOf_def getGrievance_post_grievances)
  next
    case (POST_accept j b)
    with g show ?thesis
      by (auto simp: statusOf_def getGrievance_post_accept status_accepted)
  next
    case (PATCH_status j b)
    show ?thesis
    proof (cases "j = i \<and> truthy (getProp b ''status'')")
      case True
      then obtain v where v: "getProp b ''status'' = Some v"
        by (cases "getProp b ''status''") auto
      with True PATCH_status g show ?thesis
        by (auto simp: statusOf_def getGrievance_patch_status status_patched)
    next
      case False
      with PATCH_status g show ?thesis
        by (auto simp: statusOf_def getGrievance_patch_status)
    qed
  next
    case (POST_verifications b)
    show ?thesis
    proof (cases "insertVerificationIssues b = []")
      case True
      from valid_verification(3) [OF True] obtain k where k: "getProp b ''grievanceId'' = Some (JStr k)"
        by blast
      with POST_verifications g show ?thesis
        by (auto simp: statusOf_def getGrievance_post_verifications [OF True] verifies_def
            disputes_def)
    next
      case False
      with POST_verifications g show ?thesis
        by (simp add: statusOf_def post_verifications_invalid)
    qed
  next
    case (POST_users b)
    with g show ?thesis by (simp add: statusOf_def getGrievance_post_users)
  qed (simp_all add: st statusOf_queries)
qed


lemma statusOf_post_grievances:
  "statusOf (snd (post_grievances e b s)) i = statusOf s i \<or>
   statusOf (snd (post_grievances e b s)) i = Some pending"
  by (cases "insertGrievanceIssues b = []")
     (auto simp: post_grievances_valid post_grievances_invalid createGrievance_def
        case_prod_beta Let_def getGrievance_def statusOf_def find_append split: option.splits)

lemma pending_verification_step:
  assumes after: "statusOf (snd (handle e r s)) i = Some pending_verification"
      and before: "statusOf s i \<noteq> Some pending_verification"
  shows "\<exists>b. r = PATCH_status i b \<and>
           (getProp b ''status'' = Some resolved \<or> getProp b ''status'' = Some pending_verification)"
proof (cases r)
  case (POST_grievances b)
  with after before statusOf_post_grievances [of e b s i] show ?thesis by auto
next
  case (POST_accept j b)
  with after before show ?thesis
    by (auto simp: statusOf_def getGrievance_post_accept status_accepted split: if_splits)
next
  case (PATCH_status j b)
  show ?thesis
  proof (cases "j = i \<and> truthy (getProp b ''status'')")
    case True
    then obtain v where v: "getProp b ''status'' = Some v"
      by (cases "getProp b ''status''") auto
    with True PATCH_status after show ?thesis
      by (auto simp: statusOf_def getGrievance_patch_status status_patched split: if_splits)
  next
    case False
    with PATCH_status after before show ?thesis
      by (auto simp: statusOf_def getGrievance_patch_status)
  qed
next
  case (POST_verifications b)
  show ?thesis
  proof (cases "insertVerificationIssues b = []")
    case True
    with POST_verifications after before show ?thesis
      by (auto simp: statusOf_def getGrievance_post_verifications [OF True] split: if_splits)
  next
    case False
    with POST_verifications after before show ?thesis
      by (simp add: post_verifications_invalid)
  qed
next
  case (POST_users b)
  with after before show ?thesis by (simp add: statusOf_def getGrievance_post_users)
qed (insert after before, simp_all add: statusOf_queries)

lemma pending_verification_run:
  assumes "statusOf (run rs s) i = Some pending_verification"
      and "statusOf s i \<noteq> Some pending_verification"
  shows "\<exists>e b. (e, PATCH_status i b) \<in> set rs \<and>
           (getProp b ''status'' = Some resolved \<or> getProp b ''status'' = Some pending_verification)"
  using assms
proof (induction rs arbitrary: s)
  case Nil
  then show ?case by simp
next
  case (Cons x rs)
  obtain e r where x: "x = (e, r)" by (cases x)
  show ?case
  proof (cases "statusOf (snd (handle e r s)) i = Some pending_verification")
    case True
    from pending_verification_step [OF True Cons.prems(2)] x show ?thesis by auto
  next
    case False
    from Cons.prems(1) x have "statusOf (run rs (snd (handle e r s))) i = Some pending_verification"
      by simp
    from Cons.IH [OF this False] show ?thesis by auto
  qed
qed

lemma getProp_statusBody: "getProp (statusBody x) ''status'' = Some (JStr x)"
  by (simp add: statusBody_def getProp_def)

lemma valid_sample_grievanceBody:
  "insertGrievanceIssues (grievanceBody ''Broken hand pump'' ''Water Supply'' longDescription) = []"
  by (simp add: insertGrievanceIssues_def issues_grievanceBody columnIssues_grievanceBody
      categoryIssues_Nil_iff getProp_grievanceBody categories_def length_longDescription)

lemma statusOf_created:
  "statusOf (snd (post_grievances env0
      (grievanceBody ''Broken hand pump'' ''Water Supply'' longDescription) emptyStore))
     (str ''id-0'') = Some pending"
  by (simp add: post_grievances_valid [OF valid_sample_grievanceBody] getProp_grievanceBody
      createGrievance_def case_prod_beta Let_def statusOf_def getGrievance_def emptyStore_def
      env0_def)

section \<open>C1: the status after a verification\<close>



section \<open>C2: requesting the status \<^verbatim>\<open>resolved\<close>\<close>

text \<open>
  C2, as the claim states it, fails: \<^verbatim>\<open>resolvedAt\<close> and \<^verbatim>\<open>verificationDeadline\<close>
  come from two separate readings of the clock. On the sample server the clock reads
  1000 and then 1001, so the deadline is one millisecond later than \<^verbatim>\<open>resolvedAt\<close>
  plus seven days.
\<close>

theorem updateStatus_resolved_counterexample:
  "map_option resolvedAt (getGrievance (snd (patch_status env0 (str ''g-1'') resolveBody
       (store0 in_progress))) (str ''g-1'')) = Some (Some 1000) \<and>
   map_option verificationDeadline (getGrievance (snd (patch_status env0 (str ''g-1'') resolveBody
       (store0 in_progress))) (str ''g-1'')) = Some (Some 604801001) \<and>
   (604801001 :: int) \<noteq> 1000 + 7 * msPerDay"
  by (simp add: getGrievance_patch_status getProp_resolveBody getGrievance_store0 dates_patched
      addDays_def UTC_def LocalTime_def msPerDay_def env0_def)

text \<open>
  C2, amended. \<^verbatim>\<open>PATCH /api/grievances/:id/status\<close> with the status \<^verbatim>\<open>resolved\<close>
  on a stored grievance answers 200 with the updated row, whose status is
  \<^verbatim>\<open>pending_verification\<close>, whose \<^verbatim>\<open>resolvedAt\<close> is the first reading of the clock
  and whose \<^verbatim>\<open>verificationDeadline\<close> is the second reading moved seven calendar days
  ahead in the server's local time. The deadline is \<^verbatim>\<open>resolvedAt\<close> plus exactly seven
  days (604800000 ms) when the two readings are the same and local time has the same
  offset at both ends. \<^verbatim>\<open>resolutionNotes\<close> and \<^verbatim>\<open>resolutionEvidence\<close> of the body
  replace those of the row when they are truthy, and are ignored otherwise.
\<close>

theorem updateStatus_resolved:
  assumes req: "getProp b ''status'' = Some resolved"
      and ex: "getGrievance s i = Some g"
  shows "\<exists>g' s'. patch_status e i b s = (Response 200 (GrievanceBody g'), s')
       \<and> getGrievance s' i = Some g'
       \<and> status g' = pending_verification
       \<and> resolvedAt g' = Some (clock e 0)
       \<and> verificationDeadline g' =
           Some (clock e 1 + tzUTC e (clock e 1) + 7 * 86400000
                 - tzLocal e (clock e 1 + tzUTC e (clock e 1) + 7 * 86400000))
       \<and> (clock e 1 = clock e 0 \<and>
            tzLocal e (clock e 1 + tzUTC e (clock e 1) + 7 * 86400000) = tzUTC e (clock e 1)
            \<longrightarrow> verificationDeadline g' = Some (clock e 0 + 7 * 86400000))
       \<and> resolutionNotes g' =
           (if truthy (getProp b ''resolutionNotes'') then getProp b ''resolutionNotes''
            else resolutionNotes g)
       \<and> resolutionEvidence g' =
           (if truthy (getProp b ''resolutionEvidence'') then getProp b ''resolutionEvidence''
            else resolutionEvidence g)"
proof -
  have t: "truthy (getProp b ''status'')"
    using req by simp
  have d: "verificationDeadline (patched e b g) =
           Some (clock e 1 + tzUTC e (clock e 1) + 7 * 86400000
                 - tzLocal e (clock e 1 + tzUTC e (clock e 1) + 7 * 86400000))"
    using req by (simp add: dates_patched addDays_def UTC_def LocalTime_def msPerDay_def)
  show ?thesis
    apply (rule exI [of _ "patched e b g"])
    apply (rule exI [of _ "snd (patch_status e i b s)"])
    using req ex d
    by (auto simp: patch_status_patched [OF t] getGrievance_updateRows status_patched
        notes_patched dates_patched(1))
qed

text \<open>With a clock that stands still, in UTC: the deadline is exactly seven days on.\<close>

theorem updateStatus_resolved_witness:
  "\<exists>g' s'. patch_status env1 (str ''g-1'') resolveBody (store0 in_progress)
         = (Response 200 (GrievanceBody g'), s')
       \<and> getGrievance s' (str ''g-1'') = Some g'
       \<and> status g' = pending_verification
       \<and> resolvedAt g' = Some 1000
       \<and> verificationDeadline g' = Some (1000 + 7 * 86400000)
       \<and> resolutionNotes g' = Some (JStr (str ''Pump replaced''))
       \<and> resolutionEvidence g' = None"
  using updateStatus_resolved [where e = env1 and b = resolveBody and i = "str ''g-1''"
      and s = "store0 in_progress" and g = "grievance0 in_progress"]
  by (simp add: getProp_resolveBody getGrievance_store0 env1_def env0_def grievance0_def)

section \<open>C3: the transitions of the lifecycle\<close>

text \<open>
  C3, as the claim states it, fails: no handler looks at the current status. A grievance
  that was just created (\<^verbatim>\<open>pending\<close>) goes to \<^verbatim>\<open>pending_verification\<close> by one
  status update that requests \<^verbatim>\<open>resolved\<close>, without having been accepted.
\<close>

theorem lifecycle_counterexample:
  "statusOf (run [createRequest] emptyStore) (str ''id-0'') = Some pending \<and>
   statusOf (run [createRequest, resolveRequest (str ''id-0'')] emptyStore) (str ''id-0'') =
     Some pending_verification"
  using statusOf_created
  by (auto simp: createRequest_def resolveRequest_def statusOf_def getGrievance_patch_status
      getProp_statusBody status_patched)

text \<open>
  C3, amended. One request changes the status of a stored grievance in one of five ways
  only, whatever the status was: \<^verbatim>\<open>accept\<close> sets \<^verbatim>\<open>in_progress\<close>; a status update
  that requests \<^verbatim>\<open>resolved\<close> sets \<^verbatim>\<open>pending_verification\<close>; a status update that
  requests another status sets that status; a verify/verified verification sets
  \<^verbatim>\<open>resolved\<close>; a dispute/disputed verification sets \<^verbatim>\<open>in_progress\<close>. And in every
  sequence of requests, a grievance reaches \<^verbatim>\<open>pending_verification\<close> only by a status
  update for it that requests \<^verbatim>\<open>resolved\<close> or \<^verbatim>\<open>pending_verification\<close>; an
  acceptance before it is not needed.
\<close>

theorem lifecycle_transitions:
  "(statusOf s i = Some st \<longrightarrow>
     (\<exists>st'. statusOf (snd (handle e r s)) i = Some st' \<and>
        (st' = st \<or>
         (\<exists>b. r = POST_accept i b \<and> st' = in_progress) \<or>
         (\<exists>b. r = PATCH_status i b \<and> getProp b ''status'' = Some resolved \<and>
              st' = pending_verification) \<or>
         (\<exists>b. r = PATCH_status i b \<and> getProp b ''status'' = Some st' \<and> st' \<noteq> resolved) \<or>
         (\<exists>b. r = POST_verifications b \<and> getProp b ''grievanceId'' = Some (JStr i) \<and>
              getProp b ''verificationType'' = Some (JStr (str ''verify'')) \<and>
              getProp b ''status'' = Some (JStr (str ''verified'')) \<and> st' = resolved) \<or>
         (\<exists>b. r = POST_verifications b \<and> getProp b ''grievanceId'' = Some (JStr i) \<and>
              getProp b ''verificationType'' = Some (JStr (str ''dispute'')) \<and>
              getProp b ''status'' = Some (JStr (str ''disputed'')) \<and> st' = in_progress)))) \<and>
   (statusOf s i \<noteq> Some pending_verification \<and>
    statusOf (run rs s) i = Some pending_verification \<longrightarrow>
     (\<exists>e' b. (e', PATCH_status i b) \<in> set rs \<and>
        (getProp b ''status'' = Some resolved \<or>
         getProp b ''status'' = Some pending_verification)))"
  using status_step [of s i st e r] pending_verification_run [of rs s i] by blast

text \<open>
  The lifecycle along its intended path, from the sample grievance: accepted, resolved,
  then verified or disputed.
\<close>

theorem lifecycle_transitions_witness:
  "statusOf (store0 pending) (str ''g-1'') = Some pending \<and>
   statusOf (run [acceptRequest] (store0 pending)) (str ''g-1'') = Some in_progress \<and>
   statusOf (run [acceptRequest, resolveRequest (str ''g-1'')] (store0 pending)) (str ''g-1'') =
     Some pending_verification \<and>
   statusOf (run [acceptRequest, resolveRequest (str ''g-1''),
                  verificationRequest ''verify'' ''verified''] (store0 pending)) (str ''g-1'') =
     Some resolved \<and>
   statusOf (run [acceptRequest, resolveRequest (str ''g-1''),
                  verificationRequest ''dispute'' ''disputed''] (store0 pending)) (str ''g-1'') =
     Some in_progress \<and>
   (\<exists>e' b. (e', PATCH_status (str ''g-1'') b) \<in> set [acceptRequest, resolveRequest (str ''g-1'')] \<and>
      (getProp b ''status'' = Some resolved \<or> getProp b ''status'' = Some pending_verification)) \<and>
   (\<exists>st'. statusOf (snd (handle env0 (POST_accept (str ''g-1'') (timelineBody (JNum (Fin 7))))
        (store0 pending))) (str ''g-1'') = Some st' \<and> (st' = pending \<or> st' = in_progress))"
proof -
  have a: "accepts (timelineBody (JNum (Fin 7)))"
    by (simp add: accepts_def getProp_timelineBody)
  have w: "writable (timelineBody (JNum (Fin 7)))"
    by (simp add: writable_def isInt32_def getProp_timelineBody)
  have 0: "statusOf (store0 pending) (str ''g-1'') = Some pending"
    by (simp add: statusOf_def getGrievance_store0 grievance0_def)
  have 1: "statusOf (run [acceptRequest] (store0 pending)) (str ''g-1'') = Some in_progress"
    by (simp add: acceptRequest_def statusOf_def getGrievance_post_accept a w getGrievance_store0
        status_accepted)
  have 2: "statusOf (run [acceptRequest, resolveRequest (str ''g-1'')] (store0 pending))
      (str ''g-1'') = Some pending_verification"
    by (simp add: acceptRequest_def resolveRequest_def statusOf_def getGrievance_patch_status
        getProp_statusBody getGrievance_post_accept a w getGrievance_store0 status_patched)
  have 3: "statusOf (run [acceptRequest, resolveRequest (str ''g-1''),
                  verificationRequest ''verify'' ''verified''] (store0 pending)) (str ''g-1'') =
     Some resolved"
    by (simp add: acceptRequest_def resolveRequest_def verificationRequest_def statusOf_def
        getGrievance_post_verifications valid_verificationBody getProp_verificationBody verifies_def
        getGrievance_patch_status getProp_statusBody getGrievance_post_accept a w getGrievance_store0)
  have 4: "statusOf (run [acceptRequest, resolveRequest (str ''g-1''),
                  verificationRequest ''dispute'' ''disputed''] (store0 pending)) (str ''g-1'') =
     Some in_progress"
    by (simp add: acceptRequest_def resolveRequest_def verificationRequest_def statusOf_def
        getGrievance_post_verifications valid_verificationBody getProp_verificationBody verifies_def
        disputes_def
        getGrievance_patch_status getProp_statusBody getGrievance_post_accept a w getGrievance_store0)
  from lifecycle_transitions [where s = "store0 pending" and i = "str ''g-1''"
      and rs = "[acceptRequest, resolveRequest (str ''g-1'')]", THEN conjunct2] 0 2
  have 5: "\<exists>e' b. (e', PATCH_status (str ''g-1'') b) \<in> set [acceptRequest, resolveRequest (str ''g-1'')] \<and>
      (getProp b ''status'' = Some resolved \<or> getProp b ''status'' = Some pending_verification)"
    by simp
  from lifecycle_transitions [where s = "store0 pending" and i = "str ''g-1''" and e = env0
      and r = "POST_accept (str ''g-1'') (timelineBody (JNum (Fin 7)))", THEN conjunct1,
      rule_format, OF 0]
  have 6: "\<exists>st'. statusOf (snd (handle env0 (POST_accept (str ''g-1'') (timelineBody (JNum (Fin 7))))
        (store0 pending))) (str ''g-1'') = Some st' \<and> (st' = pending \<or> st' = in_progress)"
    by auto
  from 0 1 2 3 4 5 6 show ?thesis by blast
qed

section \<open>C4: the outcomes of \<^verbatim>\<open>accept\<close>\<close>

text \<open>
  C4, as the claim states it, fails: the guard rejects a timeline that is falsy or not of
  type \<^verbatim>\<open>number\<close>, and lets every other number pass. With the timeline \<open>-5\<close>, which is
  not a positive integer, the sample grievance is accepted (200) and stores \<open>-5\<close>.
\<close>

theorem accept_guard_counterexample:
  "fst (post_accept env0 (str ''g-1'') (timelineBody (JNum (Fin (- 5)))) (store0 pending)) =
     Response 200 (GrievanceBody
       ((grievance0 in_progress)\<lparr>assignedTo := Some (str ''id-0''),
                                   resolutionTimeline := Some (- 5)\<rparr>)) \<and>
   getGrievance (snd (post_accept env0 (str ''g-1'') (timelineBody (JNum (Fin (- 5))))
       (store0 pending))) (str ''g-1'') =
     Some ((grievance0 in_progress)\<lparr>assignedTo := Some (str ''id-0''),
                                      resolutionTimeline := Some (- 5)\<rparr>)"
proof -
  have a: "accepts (timelineBody (JNum (Fin (- 5))))"
    by (simp add: accepts_def getProp_timelineBody)
  have w: "writable (timelineBody (JNum (Fin (- 5))))"
    by (simp add: writable_def isInt32_def getProp_timelineBody)
  have o: "u_id (fst (getOrCreateUser env0 panchayatOfficer (store0 pending))) = str ''id-0''"
    by (simp add: getOrCreateUser_def getUserByUsername_def store0_def createUser_def env0_def
        Let_def)
  have g: "accepted env0 (timelineBody (JNum (Fin (- 5)))) (store0 pending) (grievance0 pending) =
      (grievance0 in_progress)\<lparr>assignedTo := Some (str ''id-0''),
                                 resolutionTimeline := Some (- 5)\<rparr>"
    by (simp add: accepted_def o getProp_timelineBody grievance0_def)
  show ?thesis
    by (simp add: post_accept_accepted [OF a w] getGrievance_updateRows getGrievance_store0 g)
qed

text \<open>
  C4, amended. \<^verbatim>\<open>POST /api/grievances/:id/accept\<close> answers 400 and leaves the store
  untouched when \<^verbatim>\<open>resolutionTimeline\<close> is missing, is not a number, or is \<open>0\<close> or
  \<^verbatim>\<open>NaN\<close>; no other number is answered with 400. When it is a non-zero integer of 32
  bits (what the integer column holds), negative ones included, the answer is 404 when no
  grievance has the id, and otherwise 200 with the updated row, which is stored, with
  \<^verbatim>\<open>assignedTo\<close> the id of the user \<^verbatim>\<open>panchayat-officer\<close>, \<^verbatim>\<open>resolutionTimeline\<close>
  the integer, and the status \<^verbatim>\<open>in_progress\<close>.
\<close>

theorem accept_outcomes:
  "((\<nexists>n. getProp b ''resolutionTimeline'' = Some (JNum n) \<and> n \<noteq> Fin 0 \<and> n \<noteq> NaN) \<longrightarrow>
      post_accept e i b s = (Response 400 (ErrorBody ''Resolution timeline is required''), s)) \<and>
   (getProp b ''resolutionTimeline'' = Some (JNum n) \<and> n \<noteq> Fin 0 \<and> n \<noteq> NaN \<longrightarrow>
      code (fst (post_accept e i b s)) \<noteq> 400) \<and>
   (getProp b ''resolutionTimeline'' = Some (JNum (Fin (of_int k))) \<and> k \<noteq> 0 \<and>
      - 2147483648 \<le> k \<and> k \<le> 2147483647 \<and> getGrievance s i = None \<longrightarrow>
      fst (post_accept e i b s) = Response 404 (ErrorBody ''Grievance not found'')) \<and>
   (getProp b ''resolutionTimeline'' = Some (JNum (Fin (of_int k))) \<and> k \<noteq> 0 \<and>
      - 2147483648 \<le> k \<and> k \<le> 2147483647 \<and> getGrievance s i = Some g \<longrightarrow>
      (\<exists>g' officer. fst (post_accept e i b s) = Response 200 (GrievanceBody g') \<and>
         getGrievance (snd (post_accept e i b s)) i = Some g' \<and>
         getUserByUsername (snd (post_accept e i b s)) (str ''panchayat-officer'') = Some officer \<and>
         g' = g\<lparr>assignedTo := Some (u_id officer), resolutionTimeline := Some k,
                status := in_progress\<rparr>))"
proof (intro conjI impI)
  assume "\<nexists>n. getProp b ''resolutionTimeline'' = Some (JNum n) \<and> n \<noteq> Fin 0 \<and> n \<noteq> NaN"
  then have "\<not> accepts b" by (simp add: accepts_iff)
  then show "post_accept e i b s = (Response 400 (ErrorBody ''Resolution timeline is required''), s)"
    by (rule post_accept_rejected)
next
  assume "getProp b ''resolutionTimeline'' = Some (JNum n) \<and> n \<noteq> Fin 0 \<and> n \<noteq> NaN"
  then have a: "accepts b" by (auto simp: accepts_iff)
  show "code (fst (post_accept e i b s)) \<noteq> 400"
  proof (cases "writable b")
    case True
    then show ?thesis
      by (simp add: post_accept_accepted [OF a] split: option.splits)
  next
    case False
    then show ?thesis
      by (simp add: post_accept_failed [OF a])
  qed
next
  assume h: "getProp b ''resolutionTimeline'' = Some (JNum (Fin (of_int k))) \<and> k \<noteq> 0 \<and>
      - 2147483648 \<le> k \<and> k \<le> 2147483647 \<and> getGrievance s i = None"
  then have a: "accepts b" by (auto simp: accepts_iff)
  from h have w: "writable b" by (rule writable_int32)
  from h show "fst (post_accept e i b s) = Response 404 (ErrorBody ''Grievance not found'')"
    by (simp add: post_accept_accepted [OF a w])
next
  assume h: "getProp b ''resolutionTimeline'' = Some (JNum (Fin (of_int k))) \<and> k \<noteq> 0 \<and>
      - 2147483648 \<le> k \<and> k \<le> 2147483647 \<and> getGrievance s i = Some g"
  then have a: "accepts b" by (auto simp: accepts_iff)
  from h have w: "writable b" by (rule writable_int32)
  let ?o = "fst (getOrCreateUser e panchayatOfficer s)"
  have name: "iu_username panchayatOfficer = str ''panchayat-officer''"
    by (simp add: panchayatOfficer_def)
  have u: "getUserByUsername (snd (post_accept e i b s)) (str ''panchayat-officer'') = Some ?o"
    using getUserByUsername_getOrCreateUser [of e panchayatOfficer s]
    by (simp add: post_accept_accepted [OF a w] name)
  have g: "accepted e b s g = g\<lparr>assignedTo := Some (u_id ?o), resolutionTimeline := Some k,
                status := in_progress\<rparr>"
    using h by (simp add: accepted_def)
  from h u g show "\<exists>g' officer. fst (post_accept e i b s) = Response 200 (GrievanceBody g') \<and>
         getGrievance (snd (post_accept e i b s)) i = Some g' \<and>
         getUserByUsername (snd (post_accept e i b s)) (str ''panchayat-officer'') = Some officer \<and>
         g' = g\<lparr>assignedTo := Some (u_id officer), resolutionTimeline := Some k,
                status := in_progress\<rparr>"
    by (intro exI [of _ "accepted e b s g"] exI [of _ ?o])
       (simp add: post_accept_accepted [OF a w] getGrievance_updateRows)
qed

text \<open>
  The timelines \<open>0\<close>, \<open>"7"\<close> and none are rejected with 400, and \<open>3/2\<close> is not; \<open>7\<close> gives
  404 for an unknown id and accepts the sample grievance.
\<close>

theorem accept_outcomes_witness:
  "post_accept env0 (str ''g-1'') (timelineBody (JNum (Fin 0))) (store0 pending) =
      (Response 400 (ErrorBody ''Resolution timeline is required''), store0 pending) \<and>
   post_accept env0 (str ''g-1'') (timelineBody (JStr (str ''7''))) (store0 pending) =
      (Response 400 (ErrorBody ''Resolution timeline is required''), store0 pending) \<and>
   post_accept env0 (str ''g-1'') [] (store0 pending) =
      (Response 400 (ErrorBody ''Resolution timeline is required''), store0 pending) \<and>
   code (fst (post_accept env0 (str ''g-1'') (timelineBody (JNum (Fin (3 / 2))))
      (store0 pending))) \<noteq> 400 \<and>
   fst (post_accept env0 (str ''g-2'') (timelineBody (JNum (Fin 7))) (store0 pending)) =
      Response 404 (ErrorBody ''Grievance not found'') \<and>
   (\<exists>g' officer.
      fst (post_accept env0 (str ''g-1'') (timelineBody (JNum (Fin 7))) (store0 pending)) =
        Response 200 (GrievanceBody g') \<and>
      getGrievance (snd (post_accept env0 (str ''g-1'') (timelineBody (JNum (Fin 7)))
        (store0 pending))) (str ''g-1'') = Some g' \<and>
      getUserByUsername (snd (post_accept env0 (str ''g-1'') (timelineBody (JNum (Fin 7)))
        (store0 pending))) (str ''panchayat-officer'') = Some officer \<and>
      g' = (grievance0 in_progress)\<lparr>assignedTo := Some (u_id officer),
                                       resolutionTimeline := Some 7\<rparr>)"
proof -
  have none: "getGrievance (store0 pending) (str ''g-2'') = None"
    by (simp add: getGrievance_def store0_def grievance0_def)
  have g: "(grievance0 pending)\<lparr>assignedTo := a, resolutionTimeline := t, status := in_progress\<rparr> =
           (grievance0 in_progress)\<lparr>assignedTo := a, resolutionTimeline := t\<rparr>" for a t
    by (simp add: grievance0_def)
  have empty: "getProp [] ''resolutionTimeline'' = None"
    by (simp add: getProp_def)
  note inst = accept_outcomes [where e = env0 and s = "store0 pending" and k = 7
      and g = "grievance0 pending"]
  show ?thesis
    using inst [where b = "timelineBody (JNum (Fin 0))" and i = "str ''g-1''" and n = "Fin 7"]
      inst [where b = "timelineBody (JStr (str ''7''))" and i = "str ''g-1''" and n = "Fin 7"]
      inst [where b = "[]" and i = "str ''g-1''" and n = "Fin 7"]
      inst [where b = "timelineBody (JNum (Fin (3 / 2)))" and i = "str ''g-1''"
        and n = "Fin (3 / 2)"]
      inst [where b = "timelineBody (JNum (Fin 7))" and i = "str ''g-2''" and n = "Fin 7"]
      inst [where b = "timelineBody (JNum (Fin 7))" and i = "str ''g-1''" and n = "Fin 7"]
    by (simp add: getProp_timelineBody getGrievance_store0 none g empty)
qed

section \<open>C5: the lengths of title and description\<close>



section \<open>C6: the nine categories\<close>



section \<open>C7: the officer work queue\<close>

text \<open>
  C7. \<^verbatim>\<open>GET /api/grievances/assigned\<close> answers 200 with exactly the grievances of
  \<^verbatim>\<open>GET /api/grievances\<close> whose status is \<^verbatim>\<open>pending\<close> or \<^verbatim>\<open>in_progress\<close>, each
  as often as it occurs there and in the same relative order (it is a subsequence of the
  full list), and leaves the store as it is.
\<close>

theorem listAssignable_exact:
  "code (fst (get_grievances_assigned s)) = 200 \<and>
   snd (get_grievances_assigned s) = s \<and>
   listed (fst (get_grievances_assigned s)) =
     filter (\<lambda>g. status g = pending \<or> status g = in_progress) (listed (fst (get_grievances s))) \<and>
   subseq (listed (fst (get_grievances_assigned s))) (listed (fst (get_grievances s))) \<and>
   mset (listed (fst (get_grievances_assigned s))) =
     filter_mset (\<lambda>g. status g = pending \<or> status g = in_progress)
       (mset (listed (fst (get_grievances s))))"
  by (simp add: get_grievances_assigned_def get_grievances_def listed_def pendingOrAssigned_def)

section \<open>C8: any other status is written as it is\<close>

text \<open>
  C8, as the claim states it, fails for the empty string: it is a requested status other
  than \<^verbatim>\<open>resolved\<close>, and the guard \<^verbatim>\<open>if (!status)\<close> answers 400 and writes nothing.
\<close>

theorem updateStatus_verbatim_counterexample:
  "patch_status env0 (str ''g-1'') (statusBody []) (store0 pending) =
     (Response 400 (ErrorBody ''Status is required''), store0 pending) \<and>
   statusOf (store0 pending) (str ''g-1'') = Some pending \<and>
   pending \<noteq> JStr []"
  by (simp add: patch_status_def statusBody_def getProp_def statusOf_def getGrievance_store0
      grievance0_def)

text \<open>
  C8, amended. For a stored grievance and a requested status that is a non-empty string
  other than \<^verbatim>\<open>resolved\<close>, \<^verbatim>\<open>PATCH /api/grievances/:id/status\<close> answers 200 with
  the updated row, and the stored status is exactly the requested string, whatever the
  status was.
\<close>

theorem updateStatus_verbatim:
  assumes req: "getProp b ''status'' = Some (JStr x)"
      and nonempty: "x \<noteq> []"
      and other: "x \<noteq> str ''resolved''"
      and ex: "getGrievance s i = Some g"
  shows "\<exists>g' s'. patch_status e i b s = (Response 200 (GrievanceBody g'), s')
       \<and> getGrievance s' i = Some g'
       \<and> status g' = JStr x"
proof -
  have t: "truthy (getProp b ''status'')"
    using req nonempty by simp
  show ?thesis
    apply (rule exI [of _ "patched e b g"])
    apply (rule exI [of _ "snd (patch_status e i b s)"])
    using req other ex
    by (simp add: patch_status_patched [OF t] getGrievance_updateRows status_patched)
qed

text \<open>From \<^verbatim>\<open>pending\<close> to a status outside the lifecycle, and from \<^verbatim>\<open>resolved\<close> back to \<^verbatim>\<open>pending\<close>.\<close>

theorem updateStatus_verbatim_witness:
  "(\<exists>g' s'. patch_status env0 (str ''g-1'') (statusBody (str ''closed'')) (store0 pending)
        = (Response 200 (GrievanceBody g'), s')
       \<and> getGrievance s' (str ''g-1'') = Some g'
       \<and> status g' = JStr (str ''closed'')) \<and>
   (\<exists>g' s'. patch_status env0 (str ''g-1'') (statusBody (str ''pending'')) (store0 resolved)
        = (Response 200 (GrievanceBody g'), s')
       \<and> getGrievance s' (str ''g-1'') = Some g'
       \<and> status g' = pending)"
  using updateStatus_verbatim [where e = env0 and b = "statusBody (str ''closed'')"
      and x = "str ''closed''" and i = "str ''g-1''" and s = "store0 pending" and g = "grievance0 pending"]
    updateStatus_verbatim [where e = env0 and b = "statusBody (str ''pending'')"
      and x = "str ''pending''" and i = "str ''g-1''" and s = "store0 resolved" and g = "grievance0 resolved"]
  by (simp add: statusBody_def getProp_def getGrievance_store0)

section \<open>C9: what the server assigns at creation\<close>

text \<open>
  C9. Two bodies that differ only in keys that the creation validator omits (\<^verbatim>\<open>id\<close>,
  \<^verbatim>\<open>grievanceNumber\<close>, \<^verbatim>\<open>status\<close>, \<^verbatim>\<open>userId\<close>, \<^verbatim>\<open>assignedTo\<close>,
  \<^verbatim>\<open>resolvedAt\<close>, \<^verbatim>\<open>verificationDeadline\<close>, \<^verbatim>\<open>createdAt\<close>, \<^verbatim>\<open>updatedAt\<close>,
  \<^verbatim>\<open>isEscalated\<close>, \<^verbatim>\<open>escalatedAt\<close>) get the same answer from \<^verbatim>\<open>POST
  /api/grievances\<close> and leave the same store; and whenever the answer is 201, the created
  grievance has the status \<^verbatim>\<open>pending\<close>, the generated id and number, the owner that
  the gateway links, no assignee, no \<^verbatim>\<open>resolvedAt\<close>, no \<^verbatim>\<open>verificationDeadline\<close>,
  and the database's time as both timestamps.
\<close>

theorem creation_server_fields:
  assumes agree: "\<forall>k. k \<notin> str ` set omitted \<longrightarrow> map_of b k = map_of b' k"
  shows "post_grievances e b s = post_grievances e b' s \<and>
     (\<forall>g s'. post_grievances e b s = (Response 201 (GrievanceBody g), s') \<longrightarrow>
        status g = pending \<and> gid g = uuid e 0 \<and> grievanceNumber g = grievanceNo e \<and>
        userId g = fst (linkOwner e (str ''temp-user-id'') (getProp b ''fullName'')
                          (getProp b ''mobileNumber'') (users s)) \<and>
        assignedTo g = None \<and> resolvedAt g = None \<and> verificationDeadline g = None \<and>
        isEscalated g = Some False \<and> escalatedAt g = None \<and>
        createdAt g = dbNow e \<and> updatedAt g = dbNow e \<and>
        grievances s' = grievances s @ [g])"
proof (rule conjI)
  have n: "getProp b ''fullName'' = getProp b' ''fullName''"
    "getProp b ''mobileNumber'' = getProp b' ''mobileNumber''"
    by (simp_all add: getProp_agree [OF agree] omitted_def)
  show "post_grievances e b s = post_grievances e b' s"
  proof (cases "insertGrievanceIssues b = []")
    case True
    moreover from True have "insertGrievanceIssues b' = []"
      by (simp add: insertGrievanceIssues_agree [OF agree])
    ultimately show ?thesis
      by (simp add: post_grievances_valid insertGrievanceValue_agree [OF agree] n)
  next
    case False
    moreover from False have "insertGrievanceIssues b' \<noteq> []"
      by (simp add: insertGrievanceIssues_agree [OF agree])
    ultimately show ?thesis
      by (simp add: post_grievances_invalid insertGrievanceIssues_agree [OF agree])
  qed
next
  have "status g = pending \<and> gid g = uuid e 0 \<and> grievanceNumber g = grievanceNo e \<and>
        userId g = fst (linkOwner e (str ''temp-user-id'') (getProp b ''fullName'')
                          (getProp b ''mobileNumber'') (users s)) \<and>
        assignedTo g = None \<and> resolvedAt g = None \<and> verificationDeadline g = None \<and>
        isEscalated g = Some False \<and> escalatedAt g = None \<and>
        createdAt g = dbNow e \<and> updatedAt g = dbNow e \<and>
        grievances s' = grievances s @ [g]"
    if ok: "post_grievances e b s = (Response 201 (GrievanceBody g), s')" for g s'
  proof -
    have v: "insertGrievanceIssues b = []"
    proof (rule ccontr)
      assume "insertGrievanceIssues b \<noteq> []"
      with ok show False by (simp add: post_grievances_invalid)
    qed
    from ok show ?thesis
      by (auto simp: post_grievances_valid [OF v] createGrievance_def case_prod_beta Let_def
          split: if_splits)
  qed
  then show "\<forall>g s'. post_grievances e b s = (Response 201 (GrievanceBody g), s') \<longrightarrow>
        status g = pending \<and> gid g = uuid e 0 \<and> grievanceNumber g = grievanceNo e \<and>
        userId g = fst (linkOwner e (str ''temp-user-id'') (getProp b ''fullName'')
                          (getProp b ''mobileNumber'') (users s)) \<and>
        assignedTo g = None \<and> resolvedAt g = None \<and> verificationDeadline g = None \<and>
        isEscalated g = Some False \<and> escalatedAt g = None \<and>
        createdAt g = dbNow e \<and> updatedAt g = dbNow e \<and>
        grievances s' = grievances s @ [g]"
    by blast
qed

text \<open>
  A body that adds client values for nine of these keys creates the same grievance as the
  body without them.
\<close>

theorem creation_server_fields_witness:
  "post_grievances env0 (forged @ grievanceBody ''Broken hand pump'' ''Water Supply'' longDescription)
     (store0 resolved) =
   post_grievances env0 (grievanceBody ''Broken hand pump'' ''Water Supply'' longDescription)
     (store0 resolved) \<and>
   (\<exists>g s'. post_grievances env0
       (forged @ grievanceBody ''Broken hand pump'' ''Water Supply'' longDescription)
       (store0 resolved) = (Response 201 (GrievanceBody g), s') \<and>
     status g = pending \<and> gid g = str ''id-0'' \<and> grievanceNumber g = str ''GRV-0002'' \<and>
     userId g = str ''temp-user-id'' \<and>
     assignedTo g = None \<and> resolvedAt g = None \<and> verificationDeadline g = None \<and>
     createdAt g = 900 \<and> updatedAt g = 900 \<and>
     grievances s' = [grievance0 resolved, g])"
proof -
  let ?b = "grievanceBody ''Broken hand pump'' ''Water Supply'' longDescription"
  have v: "insertGrievanceIssues ?b = []"
    by (simp add: insertGrievanceIssues_def issues_grievanceBody columnIssues_grievanceBody
        categoryIssues_Nil_iff getProp_grievanceBody categories_def length_longDescription)
  obtain g s' where ok: "post_grievances env0 ?b (store0 resolved) = (Response 201 (GrievanceBody g), s')"
    by (simp add: post_grievances_valid [OF v] getProp_grievanceBody)
  have f: "getProp (forged @ ?b) ''fullName'' = getProp ?b ''fullName''"
    "getProp (forged @ ?b) ''mobileNumber'' = getProp ?b ''mobileNumber''"
    by (simp_all add: getProp_def forged_def)
  note inst = creation_server_fields [where e = env0 and s = "store0 resolved"
      and b = "forged @ ?b" and b' = ?b, OF forged_agree]
  from inst have eq: "post_grievances env0 (forged @ ?b) (store0 resolved) =
      post_grievances env0 ?b (store0 resolved)"
    by (rule conjunct1)
  with ok have ok': "post_grievances env0 (forged @ ?b) (store0 resolved) =
      (Response 201 (GrievanceBody g), s')"
    by simp
  from inst [THEN conjunct2, rule_format, OF ok']
  have props: "status g = pending \<and> gid g = uuid env0 0 \<and> grievanceNumber g = grievanceNo env0 \<and>
        userId g = fst (linkOwner env0 (str ''temp-user-id'') (getProp (forged @ ?b) ''fullName'')
                          (getProp (forged @ ?b) ''mobileNumber'') (users (store0 resolved))) \<and>
        assignedTo g = None \<and> resolvedAt g = None \<and> verificationDeadline g = None \<and>
        isEscalated g = Some False \<and> escalatedAt g = None \<and>
        createdAt g = dbNow env0 \<and> updatedAt g = dbNow env0 \<and>
        grievances s' = grievances (store0 resolved) @ [g]" .
  have env: "uuid env0 0 = str ''id-0''" "grievanceNo env0 = str ''GRV-0002''" "dbNow env0 = 900"
    "fst (linkOwner env0 a n m us) = a" for a n m us
    by (simp_all add: env0_def)
  have st: "grievances (store0 resolved) = [grievance0 resolved]"
    by (simp add: store0_def)
  from props have "status g = pending \<and> gid g = str ''id-0'' \<and> grievanceNumber g = str ''GRV-0002'' \<and>
     userId g = str ''temp-user-id'' \<and>
     assignedTo g = None \<and> resolvedAt g = None \<and> verificationDeadline g = None \<and>
     createdAt g = 900 \<and> updatedAt g = 900 \<and>
     grievances s' = [grievance0 resolved, g]"
    unfolding env st by simp
  with ok' eq show ?thesis by blast
qed

section \<open>C10: a verification writes the status only\<close>



end
